theory Spec2Isabelle
  imports Complex_Main "HOL-Library.Multiset"
begin

section \<open>Strings of the JavaScript runtime\<close>

text \<open>
  A JavaScript string is modelled as a \<^typ>\<open>string\<close>; a \<^typ>\<open>char\<close> stands for the
  code point of the same number, so the model covers strings over U+0000..U+00FF.
  \<open>String.prototype.toLowerCase\<close> maps A..Z and the capital letters of the Latin-1
  block (U+00C0..U+00DE without U+00D7) to the letter 32 places further on and leaves
  every other character of that range alone.
\<close>

definition lower_char :: "char \<Rightarrow> char" where
  "lower_char c =
     (let n = (of_char c :: nat)
      in if (65 \<le> n \<and> n \<le> 90) \<or> (192 \<le> n \<and> n \<le> 214) \<or> (216 \<le> n \<and> n \<le> 222)
         then char_of (n + 32) else c)"

definition toLowerCase :: "string \<Rightarrow> string" where
  "toLowerCase s = map lower_char s"

text \<open>
  White space and line terminators of ECMAScript in that range: TAB, LF, VT, FF, CR,
  SPACE and NO-BREAK SPACE. \<open>String.prototype.trim\<close> removes them at both ends.
\<close>

definition is_space :: "char \<Rightarrow> bool" where
  "is_space c = ((of_char c :: nat) \<in> {9, 10, 11, 12, 13, 32, 160})"

definition trim :: "string \<Rightarrow> string" where
  "trim s = rev (dropWhile is_space (rev (dropWhile is_space s)))"

text \<open>
  \<open>String(n)\<close> for a non-negative integer below \<open>10\<^sup>2\<^sup>1\<close>: its decimal digits.
\<close>

definition digit_char :: "nat \<Rightarrow> char" where
  "digit_char d = char_of (48 + d)"

fun decimal :: "nat \<Rightarrow> string" where
  "decimal n = (if n < 10 then [digit_char n] else decimal (n div 10) @ [digit_char (n mod 10)])"

text \<open>
  \<open>RegExp.prototype.test\<close> for a pattern without flags that is an alternation of
  literal words, such as \<open>/jpeg|jpg|png|gif/\<close>: the pattern is not anchored, so the
  test succeeds as soon as one of the words occurs anywhere in the subject.
\<close>

fun starts_with :: "string \<Rightarrow> string \<Rightarrow> bool" where
  "starts_with [] s = True"
| "starts_with (a # as) [] = False"
| "starts_with (a # as) (c # cs) = (a = c \<and> starts_with as cs)"

fun regex_test :: "string list \<Rightarrow> string \<Rightarrow> bool" where
  "regex_test alts [] = list_ex (\<lambda>a. starts_with a []) alts"
| "regex_test alts (c # cs) = (list_ex (\<lambda>a. starts_with a (c # cs)) alts \<or> regex_test alts cs)"

text \<open>
  \<open>path.extname\<close> of Node.js (POSIX flavour). Trailing separators are ignored; the
  last path component is what follows the last remaining \<open>/\<close>; the extension runs
  from the last \<open>.\<close> of that component to its end. The result is empty when the
  component has no dot, when its only dot is its first character, and when the
  component is \<open>..\<close>. The definition works on the reversed path: \<open>b\<close> is the reversed
  component and \<open>e\<close> the reversed text after its last dot.
\<close>

definition extname :: "string \<Rightarrow> string" where
  "extname p =
     (let b = takeWhile (\<lambda>c. c \<noteq> CHR ''/'') (dropWhile (\<lambda>c. c = CHR ''/'') (rev p));
          e = takeWhile (\<lambda>c. c \<noteq> CHR ''.'') b
      in if CHR ''.'' \<notin> set b then []
         else if Suc (length e) = length b then []
         else if b = ''..'' then []
         else CHR ''.'' # rev e)"

text \<open>
  The same function as Node.js computes it: one scan of the path from its end, which
  records where the extension starts (\<open>startDot\<close>) and ends (\<open>end\<close>), where the last
  component starts (\<open>startPart\<close>), and in \<open>preDotState\<close> what stands before the dot: 0
  for nothing, 1 for a dot, -1 for another character. \<open>scan\<close> takes the characters
  still to visit, the last one first, so the index of the one it visits is the number
  of those after it in the list. \<open>extname_scan\<close> is equal to \<open>extname\<close>, which is
  proved below as \<open>extname_scan_eq\<close>.
\<close>

fun scan :: "string \<Rightarrow> nat option \<Rightarrow> nat option \<Rightarrow> bool \<Rightarrow> int \<Rightarrow> nat option \<times> nat \<times> nat option \<times> int" where
  "scan [] startDot end' matchedSlash preDotState = (startDot, 0, end', preDotState)"
| "scan (code # rest) startDot end' matchedSlash preDotState =
     (let i = length rest
      in if code = CHR ''/''
         then (if \<not> matchedSlash then (startDot, i + 1, end', preDotState)
               else scan rest startDot end' matchedSlash preDotState)
         else
           (let matchedSlash1 = (if end' = None then False else matchedSlash);
                end1 = (if end' = None then Some (i + 1) else end')
            in if code = CHR ''.''
               then (if startDot = None then scan rest (Some i) end1 matchedSlash1 preDotState
                     else if preDotState \<noteq> 1 then scan rest startDot end1 matchedSlash1 1
                     else scan rest startDot end1 matchedSlash1 preDotState)
               else if startDot \<noteq> None then scan rest startDot end1 matchedSlash1 (- 1)
               else scan rest startDot end1 matchedSlash1 preDotState))"

definition extname_scan :: "string \<Rightarrow> string" where
  "extname_scan path =
     (case scan (rev path) None None True 0 of
        (Some startDot, startPart, Some end', preDotState) \<Rightarrow>
          if preDotState = 0 \<or>
             (preDotState = 1 \<and> startDot = end' - 1 \<and> startDot = startPart + 1)
          then []
          else take (end' - startDot) (drop startDot path)
      | _ \<Rightarrow> [])"

section \<open>Responses\<close>

text \<open>
  \<open>ok(res, data)\<close> answers \<open>{code: 0, msg: 'ok', data}\<close>; \<open>bad(res, msg)\<close> answers
  status 400 with \<open>{code: 1, msg}\<close>. An error handed to \<open>next\<close> that is not a
  \<open>MulterError\<close> reaches the last middleware, which answers status 500 with
  \<open>{code: 1, msg: 'server error'}\<close>.
\<close>

datatype 'a response = Ok 'a | Bad string | ServerError

section \<open>Upload guard\<close>

record upload_file =
  originalname :: string
  size_bytes :: nat

definition allowedFileTypes :: "string list" where
  "allowedFileTypes = [''jpeg'', ''jpg'', ''png'', ''gif'']"

definition invalid_file_type :: string where
  "invalid_file_type = ''Invalid file type. Only jpeg, jpg, png, and gif files are allowed.''"

text \<open>
  \<open>fileFilter\<close>: \<open>Some msg\<close> is \<open>cb(new Error(msg), false)\<close>, \<open>None\<close> is \<open>cb(null, true)\<close>.
\<close>

definition fileFilter :: "upload_file \<Rightarrow> string option" where
  "fileFilter file =
     (let ext = toLowerCase (extname (originalname file))
      in if \<not> regex_test allowedFileTypes ext then Some invalid_file_type else None)"

definition uploadDir :: string where
  "uploadDir = ''uploads''"

text \<open>\<open>storage.destination\<close>: the same test again, then the upload directory.\<close>

definition destination :: "upload_file \<Rightarrow> string + string" where
  "destination file =
     (let ext = toLowerCase (extname (originalname file))
      in if \<not> regex_test allowedFileTypes ext then Inl invalid_file_type else Inr uploadDir)"

text \<open>
  \<open>storage.filename\<close>: \<open>Date.now() + '_' + Math.random().toString(16).slice(2) + ext\<close>.
  \<open>now\<close> is the clock reading in milliseconds and \<open>rnd\<close> the text
  \<open>Math.random().toString(16)\<close>, which is \<open>0\<close> or \<open>0.\<close> followed by hexadecimal digits.
\<close>

definition filename :: "nat \<Rightarrow> string \<Rightarrow> upload_file \<Rightarrow> string" where
  "filename now rnd file =
     (let ext = toLowerCase (extname (originalname file))
      in decimal now @ ''_'' @ drop 2 rnd @ ext)"

definition is_hex :: "char \<Rightarrow> bool" where
  "is_hex c = (c \<in> set ''0123456789abcdef'')"

definition fileSize_limit :: nat where
  "fileSize_limit = 5 * 1024 * 1024"

text \<open>
  \<open>uploader.single('file')\<close> with this filter, storage and limit. The filter runs
  when the file part starts; an error of the filter or of \<open>destination\<close> is handed to
  \<open>next\<close> and nothing is stored. A part longer than the limit ends in the
  \<open>MulterError\<close> \<open>LIMIT_FILE_SIZE\<close>, and multer removes what it had stored of it.
  Otherwise the part is stored in the directory under the generated name, which
  becomes \<open>req.file.filename\<close>. The directory is the list of the names it holds.
\<close>

datatype multer_result = PlainError string | LimitFileSize | Stored string

definition single :: "nat \<Rightarrow> string \<Rightarrow> upload_file \<Rightarrow> string list \<Rightarrow> multer_result \<times> string list" where
  "single now rnd file dir =
     (case fileFilter file of
        Some e \<Rightarrow> (PlainError e, dir)
      | None \<Rightarrow>
          (case destination file of
             Inl e \<Rightarrow> (PlainError e, dir)
           | Inr d \<Rightarrow>
               (if size_bytes file > fileSize_limit then (LimitFileSize, dir)
                else (Stored (filename now rnd file), List.insert (filename now rnd file) dir))))"

text \<open>
  The route handler of \<open>POST /api/upload\<close> from its second check on
  (\<open>req.fileValidationError\<close> is never set by this program): it reads the extension of
  the stored name again; when that fails the test the handler unlinks the stored
  file and answers \<open>bad\<close>, otherwise it answers the URL of the file.
\<close>

definition upload_handler :: "string \<Rightarrow> string \<Rightarrow> string list \<Rightarrow> string response \<times> string list" where
  "upload_handler host stored dir =
     (let ext = toLowerCase (extname stored)
      in if \<not> regex_test allowedFileTypes ext
         then (Bad invalid_file_type, removeAll stored dir)
         else (Ok (''http://'' @ host @ ''/uploads/'' @ stored), dir))"

text \<open>
  The whole endpoint for a request that carries at most one part, in the field
  \<open>file\<close>: middleware, then handler, then the error middleware.
\<close>

definition api_upload :: "string \<Rightarrow> nat \<Rightarrow> string \<Rightarrow> upload_file option \<Rightarrow> string list \<Rightarrow> string response \<times> string list" where
  "api_upload host now rnd req_file dir =
     (case req_file of
        None \<Rightarrow> (Bad ''File upload failed or invalid file type'', dir)
      | Some file \<Rightarrow>
          (case single now rnd file dir of
             (PlainError e, dir') \<Rightarrow> (ServerError, dir')
           | (LimitFileSize, dir') \<Rightarrow> (Bad ''File too large. Maximum size is 5MB.'', dir')
           | (Stored name, dir') \<Rightarrow> upload_handler host name dir'))"



section \<open>JavaScript numbers and values\<close>

text \<open>
  A number of the runtime is NaN, an infinity, or a finite value. Finite values are
  kept as exact reals; negative zero is not told apart from zero (the program
  compares and prints numbers, and both do not tell them apart either). Arithmetic
  on finite values is exact: it is the runtime's arithmetic wherever the runtime's
  result needs no rounding, as for integers below \<open>2\<^sup>5\<^sup>3\<close>.
\<close>

datatype jsnum = NaN | NegInf | Fin real | PosInf

fun num_lt :: "jsnum \<Rightarrow> jsnum \<Rightarrow> bool" where
  "num_lt (Fin a) (Fin b) = (a < b)"
| "num_lt (Fin a) PosInf = True"
| "num_lt NegInf (Fin b) = True"
| "num_lt NegInf PosInf = True"
| "num_lt _ _ = False"

fun num_le :: "jsnum \<Rightarrow> jsnum \<Rightarrow> bool" where
  "num_le (Fin a) (Fin b) = (a \<le> b)"
| "num_le (Fin a) PosInf = True"
| "num_le NegInf (Fin b) = True"
| "num_le NegInf PosInf = True"
| "num_le NegInf NegInf = True"
| "num_le PosInf PosInf = True"
| "num_le _ _ = False"

fun truthy_num :: "jsnum \<Rightarrow> bool" where
  "truthy_num NaN = False"
| "truthy_num (Fin r) = (r \<noteq> 0)"
| "truthy_num _ = True"

fun num_sub :: "jsnum \<Rightarrow> jsnum \<Rightarrow> jsnum" where
  "num_sub (Fin a) (Fin b) = Fin (a - b)"
| "num_sub (Fin a) PosInf = NegInf"
| "num_sub (Fin a) NegInf = PosInf"
| "num_sub PosInf (Fin b) = PosInf"
| "num_sub PosInf NegInf = PosInf"
| "num_sub NegInf (Fin b) = NegInf"
| "num_sub NegInf PosInf = NegInf"
| "num_sub _ _ = NaN"

fun inf_times :: "bool \<Rightarrow> real \<Rightarrow> jsnum" where
  "inf_times positive r =
     (if r = 0 then NaN else if (0 < r) = positive then PosInf else NegInf)"

fun num_mul :: "jsnum \<Rightarrow> jsnum \<Rightarrow> jsnum" where
  "num_mul (Fin a) (Fin b) = Fin (a * b)"
| "num_mul (Fin a) PosInf = inf_times True a"
| "num_mul (Fin a) NegInf = inf_times False a"
| "num_mul PosInf (Fin b) = inf_times True b"
| "num_mul NegInf (Fin b) = inf_times False b"
| "num_mul PosInf PosInf = PosInf"
| "num_mul NegInf NegInf = PosInf"
| "num_mul PosInf NegInf = NegInf"
| "num_mul NegInf PosInf = NegInf"
| "num_mul _ _ = NaN"

text \<open>
  The values a request can carry: what \<open>JSON.parse\<close> and the query parser build, and
  \<open>undefined\<close> for a field that is absent. An object is the list of its own
  properties.
\<close>

datatype jsval =
    Undefined | Null | Bool bool | Num jsnum | Str string
  | Arr "jsval list" | Obj "(string \<times> jsval) list"

fun truthy :: "jsval \<Rightarrow> bool" where
  "truthy Undefined = False"
| "truthy Null = False"
| "truthy (Bool b) = b"
| "truthy (Num x) = truthy_num x"
| "truthy (Str s) = (s \<noteq> [])"
| "truthy (Arr xs) = True"
| "truthy (Obj kvs) = True"

text \<open>\<open>typeof v === 'string'\<close>\<close>

fun is_string :: "jsval \<Rightarrow> bool" where
  "is_string (Str s) = True"
| "is_string _ = False"

text \<open>
  What the program takes from its platform without defining it. Every function of the
  program below takes these as the parameter \<open>E\<close>, and every general theorem holds for
  all of them:
  \<^item> \<open>StringToNumber\<close>: the number a text denotes for \<open>Number(text)\<close>, NaN if none;
  \<^item> \<open>NumberToString\<close>: the text of a number;
  \<^item> \<open>ToPrimitive\<close>: the text an array or an object converts to, \<open>None\<close> when the
    conversion throws a \<open>TypeError\<close>;
  \<^item> \<open>xss\<close>: the filter of the \<open>xss\<close> package with its default options.
\<close>

record engine =
  StringToNumber :: "string \<Rightarrow> jsnum"
  NumberToString :: "jsnum \<Rightarrow> string"
  ToPrimitive :: "jsval \<Rightarrow> string option"
  xss :: "string \<Rightarrow> string"

text \<open>
  A computation of the program either returns or throws; every handler runs in a
  \<open>try\<close> whose \<open>catch\<close> hands the exception to \<open>next\<close>, which ends in the answer
  \<open>ServerError\<close>.
\<close>

datatype 'a completion = Throw | Return 'a

definition of_option :: "'a option \<Rightarrow> 'a completion" where
  "of_option x = (case x of None \<Rightarrow> Throw | Some y \<Rightarrow> Return y)"

text \<open>\<open>Number(v)\<close> and \<open>String(v)\<close>.\<close>

definition Number :: "engine \<Rightarrow> jsval \<Rightarrow> jsnum completion" where
  "Number E v =
     (case v of
        Undefined \<Rightarrow> Return NaN
      | Null \<Rightarrow> Return (Fin 0)
      | Bool b \<Rightarrow> Return (Fin (if b then 1 else 0))
      | Num x \<Rightarrow> Return x
      | Str s \<Rightarrow> Return (StringToNumber E s)
      | Arr xs \<Rightarrow> of_option (map_option (StringToNumber E) (ToPrimitive E v))
      | Obj kvs \<Rightarrow> of_option (map_option (StringToNumber E) (ToPrimitive E v)))"

definition ToString :: "engine \<Rightarrow> jsval \<Rightarrow> string completion" where
  "ToString E v =
     (case v of
        Undefined \<Rightarrow> Return ''undefined''
      | Null \<Rightarrow> Return ''null''
      | Bool b \<Rightarrow> Return (if b then ''true'' else ''false'')
      | Num x \<Rightarrow> Return (NumberToString E x)
      | Str s \<Rightarrow> Return s
      | Arr xs \<Rightarrow> of_option (ToPrimitive E v)
      | Obj kvs \<Rightarrow> of_option (ToPrimitive E v))"

text \<open>
  \<open>v.length\<close>: the length of a string or an array, the own property \<open>length\<close> of an
  object, \<open>undefined\<close> on a boolean or a number, a \<open>TypeError\<close> on \<open>undefined\<close> and \<open>null\<close>.
\<close>

definition get_length :: "jsval \<Rightarrow> jsval completion" where
  "get_length v =
     (case v of
        Undefined \<Rightarrow> Throw
      | Null \<Rightarrow> Throw
      | Bool b \<Rightarrow> Return Undefined
      | Num x \<Rightarrow> Return Undefined
      | Str s \<Rightarrow> Return (Num (Fin (real (length s))))
      | Arr xs \<Rightarrow> Return (Num (Fin (real (length xs))))
      | Obj kvs \<Rightarrow> Return (case map_of kvs ''length'' of None \<Rightarrow> Undefined | Some w \<Rightarrow> w))"

text \<open>\<open>v > c\<close> for a number \<open>c\<close>: both sides as numbers, false when one is NaN.\<close>

definition js_gt :: "engine \<Rightarrow> jsval \<Rightarrow> real \<Rightarrow> bool completion" where
  "js_gt E v c = (case Number E v of Throw \<Rightarrow> Throw | Return n \<Rightarrow> Return (num_lt (Fin c) n))"

definition length_gt :: "engine \<Rightarrow> jsval \<Rightarrow> real \<Rightarrow> bool completion" where
  "length_gt E v c = (case get_length v of Throw \<Rightarrow> Throw | Return l \<Rightarrow> js_gt E l c)"

section \<open>Sanitizer and validators\<close>

definition sanitizeInput :: "engine \<Rightarrow> jsval \<Rightarrow> jsval" where
  "sanitizeInput E input = (case input of Str s \<Rightarrow> Str (xss E (trim s)) | _ \<Rightarrow> input)"

text \<open>The validators return \<open>null\<close> (here \<open>None\<close>) or the text of the error.\<close>

definition validateTitle :: "engine \<Rightarrow> jsval \<Rightarrow> string option completion" where
  "validateTitle E title =
     (if \<not> truthy title then Return (Some ''Title is required'')
      else case length_gt E title 255 of
             Throw \<Rightarrow> Throw
           | Return True \<Rightarrow> Return (Some ''Title is too long (max 255 characters)'')
           | Return False \<Rightarrow> Return None)"

definition validateContent :: "engine \<Rightarrow> jsval \<Rightarrow> string option completion" where
  "validateContent E content =
     (if \<not> truthy content then Return (Some ''Content is required'')
      else case length_gt E content 50000 of
             Throw \<Rightarrow> Throw
           | Return True \<Rightarrow> Return (Some ''Content is too long (max 50000 characters)'')
           | Return False \<Rightarrow> Return None)"

text \<open>The route parameter \<open>id\<close> is always a string.\<close>

definition validateId :: "engine \<Rightarrow> string \<Rightarrow> string option" where
  "validateId E id' =
     (let numId = StringToNumber E id'
      in if (\<not> truthy_num numId) \<or> num_le numId (Fin 0) then Some ''Invalid ID'' else None)"

section \<open>The notice table\<close>

datatype status = Draft | Published

fun status_text :: "status \<Rightarrow> string" where
  "status_text Draft = ''draft''"
| "status_text Published = ''published''"

text \<open>
  A row of the table \<open>notice\<close>. \<open>title\<close> and \<open>content\<close> hold the value that was bound
  to the statement's parameter; \<open>created_at\<close> is stamped by the storage when the row
  is inserted. Times are readings of the storage's clock. The column \<open>updated_at\<close>,
  which no statement of the program writes, is left out.
\<close>

record notice =
  notice_id :: nat
  title :: jsval
  content :: jsval
  content_delta :: "string option"
  status :: status
  publish_time :: "nat option"
  created_at :: nat

text \<open>The statements the program hands to \<open>db.query\<close>, with their parameters.\<close>

datatype statement =
    SelectPage "string option" jsnum jsnum
  | SelectCount "string option"
  | SelectById jsnum
  | Insert jsval jsval "string option"
  | Update jsval jsval "string option" jsnum
  | SetPublished jsnum
  | Delete jsnum
  | DeleteIn "jsnum list"

text \<open>
  The storage: the rows, the next value of the auto-increment key, and the statements
  issued so far, the latest last.
\<close>

record storage =
  rows :: "notice list"
  next_id :: nat
  issued :: "statement list"

definition issue :: "statement \<Rightarrow> storage \<Rightarrow> storage" where
  "issue q st = st\<lparr>issued := issued st @ [q]\<rparr>"

text \<open>
  The driver writes a number parameter into the statement as its text. NaN and the
  infinities are no numeric literals, and \<open>LIMIT\<close> and \<open>OFFSET\<close> take non-negative
  integer literals only: a statement with any other text in these places is rejected
  and \<open>db.query\<close> throws.
\<close>

definition sql_number :: "jsnum \<Rightarrow> real option" where
  "sql_number x = (case x of Fin r \<Rightarrow> Some r | _ \<Rightarrow> None)"

text \<open>
  A parameter bound to a text column: a string, a boolean and a finite number are
  written as one value. An infinite number or NaN is written as a word that is no
  value (\<open>Infinity\<close>, \<open>NaN\<close>), and an array or an object is written as a list of values
  or of assignments where the statement has the place of one value; the statement is
  taken as rejected then, and \<open>db.query\<close> throws. \<open>null\<close> and \<open>undefined\<close> are written
  as \<open>NULL\<close>.
\<close>

definition sql_value :: "jsval \<Rightarrow> bool" where
  "sql_value v =
     (case v of
        Num x \<Rightarrow> (case sql_number x of None \<Rightarrow> False | Some r \<Rightarrow> True)
      | Arr xs \<Rightarrow> False
      | Obj kvs \<Rightarrow> False
      | _ \<Rightarrow> True)"

definition sql_count :: "jsnum \<Rightarrow> nat option" where
  "sql_count x =
     (case x of
        Fin r \<Rightarrow> if 0 \<le> r \<and> r = of_int \<lfloor>r\<rfloor> then Some (nat \<lfloor>r\<rfloor>) else None
      | _ \<Rightarrow> None)"

definition has_id :: "real \<Rightarrow> notice \<Rightarrow> bool" where
  "has_id x r = (real (notice_id r) = x)"

definition where_status :: "string option \<Rightarrow> notice \<Rightarrow> bool" where
  "where_status w r = (case w of None \<Rightarrow> True | Some s \<Rightarrow> status_text (status r) = s)"

text \<open>
  \<open>ORDER BY created_at DESC\<close>. The storage is free in the order of rows created at
  the same time; the model takes one such order.
\<close>

definition order_by_created_desc :: "notice list \<Rightarrow> notice list" where
  "order_by_created_desc rs = rev (sort_key created_at rs)"

text \<open>
  \<open>SELECT id,title,content,status,publish_time,created_at,updated_at FROM notice
  [WHERE status=?] ORDER BY created_at DESC LIMIT ? OFFSET ?\<close> and the rows it lists.
\<close>

record list_row =
  row_id :: nat
  row_title :: jsval
  row_content :: jsval
  row_status :: status
  row_publish_time :: "nat option"
  row_created_at :: nat

definition list_columns :: "notice \<Rightarrow> list_row" where
  "list_columns r =
     \<lparr>row_id = notice_id r, row_title = title r, row_content = content r,
      row_status = status r, row_publish_time = publish_time r, row_created_at = created_at r\<rparr>"

definition db_select_page ::
    "string option \<Rightarrow> jsnum \<Rightarrow> jsnum \<Rightarrow> storage \<Rightarrow> list_row list completion \<times> storage" where
  "db_select_page w size' offset st =
     (case (sql_count size', sql_count offset) of
        (Some l, Some off) \<Rightarrow>
          (Return (map list_columns
             (take l (drop off (order_by_created_desc (filter (where_status w) (rows st)))))),
           issue (SelectPage w size' offset) st)
      | _ \<Rightarrow> (Throw, issue (SelectPage w size' offset) st))"

text \<open>\<open>SELECT COUNT(*) AS total FROM notice [WHERE status=?]\<close>\<close>

definition db_count :: "string option \<Rightarrow> storage \<Rightarrow> nat completion \<times> storage" where
  "db_count w st = (Return (length (filter (where_status w) (rows st))), issue (SelectCount w) st)"

text \<open>\<open>SELECT ... FROM notice WHERE id=?\<close>\<close>

definition db_select_by_id :: "jsnum \<Rightarrow> storage \<Rightarrow> notice list completion \<times> storage" where
  "db_select_by_id n st =
     (case sql_number n of
        None \<Rightarrow> (Throw, issue (SelectById n) st)
      | Some x \<Rightarrow> (Return (filter (has_id x) (rows st)), issue (SelectById n) st))"

text \<open>
  \<open>INSERT INTO notice(title,content,content_delta,status) VALUES(?,?,?, 'draft')\<close>;
  the result is \<open>insertId\<close>.
\<close>

definition db_insert ::
    "jsval \<Rightarrow> jsval \<Rightarrow> string option \<Rightarrow> nat \<Rightarrow> storage \<Rightarrow> nat completion \<times> storage" where
  "db_insert t c d now st =
     (if sql_value t \<and> sql_value c
      then (Return (next_id st),
            issue (Insert t c d)
              (st\<lparr>rows := rows st @
                     [\<lparr>notice_id = next_id st, title = t, content = c, content_delta = d,
                       status = Draft, publish_time = None, created_at = now\<rparr>],
                   next_id := Suc (next_id st)\<rparr>))
      else (Throw, issue (Insert t c d) st))"

text \<open>\<open>UPDATE notice SET title=?, content=?, content_delta=? WHERE id=?\<close>\<close>

definition db_update ::
    "jsval \<Rightarrow> jsval \<Rightarrow> string option \<Rightarrow> jsnum \<Rightarrow> storage \<Rightarrow> unit completion \<times> storage" where
  "db_update t c d n st =
     (case sql_number n of
        None \<Rightarrow> (Throw, issue (Update t c d n) st)
      | Some x \<Rightarrow>
          (if sql_value t \<and> sql_value c
           then (Return (),
                 issue (Update t c d n)
                   (st\<lparr>rows := map (\<lambda>r. if has_id x r
                                         then r\<lparr>title := t, content := c, content_delta := d\<rparr>
                                         else r) (rows st)\<rparr>))
           else (Throw, issue (Update t c d n) st)))"

text \<open>\<open>UPDATE notice SET status='published', publish_time=NOW() WHERE id=?\<close>\<close>

definition db_publish :: "jsnum \<Rightarrow> nat \<Rightarrow> storage \<Rightarrow> unit completion \<times> storage" where
  "db_publish n now st =
     (case sql_number n of
        None \<Rightarrow> (Throw, issue (SetPublished n) st)
      | Some x \<Rightarrow>
          (Return (),
           issue (SetPublished n)
             (st\<lparr>rows := map (\<lambda>r. if has_id x r
                                   then r\<lparr>status := Published, publish_time := Some now\<rparr>
                                   else r) (rows st)\<rparr>)))"

text \<open>\<open>DELETE FROM notice WHERE id=?\<close>\<close>

definition db_delete :: "jsnum \<Rightarrow> storage \<Rightarrow> unit completion \<times> storage" where
  "db_delete n st =
     (case sql_number n of
        None \<Rightarrow> (Throw, issue (Delete n) st)
      | Some x \<Rightarrow>
          (Return (), issue (Delete n) (st\<lparr>rows := filter (\<lambda>r. \<not> has_id x r) (rows st)\<rparr>)))"

text \<open>\<open>DELETE FROM notice WHERE id IN (?,...,?)\<close>\<close>

definition db_delete_in :: "jsnum list \<Rightarrow> storage \<Rightarrow> unit completion \<times> storage" where
  "db_delete_in ns st =
     (case those (map sql_number ns) of
        None \<Rightarrow> (Throw, issue (DeleteIn ns) st)
      | Some xs \<Rightarrow>
          (Return (),
           issue (DeleteIn ns)
             (st\<lparr>rows := filter (\<lambda>r. real (notice_id r) \<notin> set xs) (rows st)\<rparr>)))"

section \<open>Request handlers\<close>

datatype payload =
    PList "list_row list" nat jsnum jsnum
  | PNotice notice
  | PId nat
  | PTrue

text \<open>
  \<open>GET /api/notices\<close>. The three arguments are \<open>req.query.page\<close>, \<open>req.query.size\<close> and
  \<open>req.query.status\<close>. \<open>(req.query.status || '').trim()\<close> throws when the value is
  truthy and no string.
\<close>

definition query_status :: "jsval \<Rightarrow> string completion" where
  "query_status v =
     (if \<not> truthy v then Return (trim [])
      else case v of Str s \<Rightarrow> Return (trim s) | _ \<Rightarrow> Throw)"

definition list_notices ::
    "engine \<Rightarrow> jsval \<Rightarrow> jsval \<Rightarrow> jsval \<Rightarrow> storage \<Rightarrow> payload response \<times> storage" where
  "list_notices E qpage qsize qstatus st =
     (case Number E (if truthy qpage then qpage else Num (Fin 1)) of
        Throw \<Rightarrow> (ServerError, st)
      | Return page \<Rightarrow>
     (case Number E (if truthy qsize then qsize else Num (Fin 10)) of
        Throw \<Rightarrow> (ServerError, st)
      | Return size' \<Rightarrow>
     (case query_status qstatus of
        Throw \<Rightarrow> (ServerError, st)
      | Return status' \<Rightarrow>
          if num_le page (Fin 0) \<or> num_le size' (Fin 0) \<or> num_lt (Fin 100) size'
          then (Bad ''page/size invalid'', st)
          else if status' \<noteq> [] \<and> status' \<notin> set [''draft'', ''published'']
          then (Bad ''invalid status'', st)
          else
            (let offset = num_mul (num_sub page (Fin 1)) size';
                 args = (if status' \<noteq> [] then Some status' else None)
             in case db_select_page args size' offset st of
                  (Throw, st1) \<Rightarrow> (ServerError, st1)
                | (Return rows', st1) \<Rightarrow>
                    (case db_count args st1 of
                       (Throw, st2) \<Rightarrow> (ServerError, st2)
                     | (Return total', st2) \<Rightarrow> (Ok (PList rows' total' page size'), st2))))))"

text \<open>\<open>GET /api/notices/:id\<close>\<close>

definition get_notice :: "engine \<Rightarrow> string \<Rightarrow> storage \<Rightarrow> payload response \<times> storage" where
  "get_notice E id' st =
     (case validateId E id' of
        Some validationError \<Rightarrow> (Bad validationError, st)
      | None \<Rightarrow>
          (case db_select_by_id (StringToNumber E id') st of
             (Throw, st1) \<Rightarrow> (ServerError, st1)
           | (Return rs, st1) \<Rightarrow>
               (case rs of [] \<Rightarrow> (Bad ''not found'', st1) | r # _ \<Rightarrow> (Ok (PNotice r), st1))))"

text \<open>
  The body of a write request: \<open>req.body.title\<close>, \<open>req.body.content\<close> and
  \<open>req.body.content_delta\<close>.
\<close>

record body =
  body_title :: jsval
  body_content :: jsval
  body_content_delta :: jsval

text \<open>\<open>req.body.content_delta ? String(req.body.content_delta) : null\<close>\<close>

definition delta_text :: "engine \<Rightarrow> jsval \<Rightarrow> string option completion" where
  "delta_text E v =
     (if truthy v
      then (case ToString E v of Throw \<Rightarrow> Throw | Return s \<Rightarrow> Return (Some s))
      else Return None)"

text \<open>
  What the create and the update handler share: sanitise, convert \<open>content_delta\<close>,
  validate. The result is the answer to send when a check fails, or the three
  parameters of the statement.
\<close>

definition checked_fields ::
    "engine \<Rightarrow> body \<Rightarrow> payload response + (jsval \<times> jsval \<times> string option)" where
  "checked_fields E b =
     (let t = sanitizeInput E (body_title b);
          c = sanitizeInput E (body_content b)
      in case delta_text E (body_content_delta b) of
           Throw \<Rightarrow> Inl ServerError
         | Return d \<Rightarrow>
             (case validateTitle E t of
                Throw \<Rightarrow> Inl ServerError
              | Return (Some titleError) \<Rightarrow> Inl (Bad titleError)
              | Return None \<Rightarrow>
                  (case validateContent E c of
                     Throw \<Rightarrow> Inl ServerError
                   | Return (Some contentError) \<Rightarrow> Inl (Bad contentError)
                   | Return None \<Rightarrow> Inr (t, c, d))))"

text \<open>\<open>POST /api/notices\<close>; \<open>now\<close> is the storage's clock.\<close>

definition create_notice ::
    "engine \<Rightarrow> nat \<Rightarrow> body \<Rightarrow> storage \<Rightarrow> payload response \<times> storage" where
  "create_notice E now b st =
     (case checked_fields E b of
        Inl answer \<Rightarrow> (answer, st)
      | Inr (t, c, d) \<Rightarrow>
          (case db_insert t c d now st of
             (Throw, st1) \<Rightarrow> (ServerError, st1)
           | (Return insertId, st1) \<Rightarrow> (Ok (PId insertId), st1)))"

text \<open>\<open>PUT /api/notices/:id\<close>\<close>

definition update_notice ::
    "engine \<Rightarrow> string \<Rightarrow> body \<Rightarrow> storage \<Rightarrow> payload response \<times> storage" where
  "update_notice E id' b st =
     (case validateId E id' of
        Some validationError \<Rightarrow> (Bad validationError, st)
      | None \<Rightarrow>
          (case checked_fields E b of
             Inl answer \<Rightarrow> (answer, st)
           | Inr (t, c, d) \<Rightarrow>
               (case db_update t c d (StringToNumber E id') st of
                  (Throw, st1) \<Rightarrow> (ServerError, st1)
                | (Return _, st1) \<Rightarrow> (Ok PTrue, st1))))"

text \<open>\<open>POST /api/notices/:id/publish\<close>\<close>

definition publish_notice ::
    "engine \<Rightarrow> nat \<Rightarrow> string \<Rightarrow> storage \<Rightarrow> payload response \<times> storage" where
  "publish_notice E now id' st =
     (case validateId E id' of
        Some validationError \<Rightarrow> (Bad validationError, st)
      | None \<Rightarrow>
          (case db_publish (StringToNumber E id') now st of
             (Throw, st1) \<Rightarrow> (ServerError, st1)
           | (Return _, st1) \<Rightarrow> (Ok PTrue, st1)))"

text \<open>\<open>DELETE /api/notices/:id\<close>\<close>

definition delete_notice :: "engine \<Rightarrow> string \<Rightarrow> storage \<Rightarrow> payload response \<times> storage" where
  "delete_notice E id' st =
     (case validateId E id' of
        Some validationError \<Rightarrow> (Bad validationError, st)
      | None \<Rightarrow>
          (case db_delete (StringToNumber E id') st of
             (Throw, st1) \<Rightarrow> (ServerError, st1)
           | (Return _, st1) \<Rightarrow> (Ok PTrue, st1)))"

text \<open>
  \<open>POST /api/notices/batch_delete\<close>; the argument is \<open>req.body.ids\<close>.
  \<open>ids.map(n => Number(n))\<close> throws as soon as one conversion does.
\<close>

fun map_Number :: "engine \<Rightarrow> jsval list \<Rightarrow> jsnum list completion" where
  "map_Number E [] = Return []"
| "map_Number E (v # vs) =
     (case Number E v of
        Throw \<Rightarrow> Throw
      | Return n \<Rightarrow> (case map_Number E vs of Throw \<Rightarrow> Throw | Return ns \<Rightarrow> Return (n # ns)))"

definition batch_delete :: "engine \<Rightarrow> jsval \<Rightarrow> storage \<Rightarrow> payload response \<times> storage" where
  "batch_delete E body_ids st =
     (case (if truthy body_ids then body_ids else Arr []) of
        Arr ids \<Rightarrow>
          (if ids = [] then (Bad ''ids required'', st)
           else case map_Number E ids of
                  Throw \<Rightarrow> (ServerError, st)
                | Return ns \<Rightarrow>
                    (let safeIds = filter (\<lambda>n. num_lt (Fin 0) n) ns
                     in if safeIds = [] then (Bad ''ids invalid'', st)
                        else if length safeIds > 100
                        then (Bad ''Too many IDs in batch operation (max 100)'', st)
                        else case db_delete_in safeIds st of
                               (Throw, st1) \<Rightarrow> (ServerError, st1)
                             | (Return _, st1) \<Rightarrow> (Ok PTrue, st1)))
      | _ \<Rightarrow> (Bad ''ids required'', st))"

text \<open>The requests of the notice interface, and the handler each one reaches.\<close>

datatype request =
    GET_notices jsval jsval jsval
  | GET_notice string
  | POST_notices body
  | PUT_notice string body
  | POST_publish string
  | DELETE_notice string
  | POST_batch_delete jsval

fun api :: "engine \<Rightarrow> nat \<Rightarrow> request \<Rightarrow> storage \<Rightarrow> payload response \<times> storage" where
  "api E now (GET_notices qpage qsize qstatus) st = list_notices E qpage qsize qstatus st"
| "api E now (GET_notice id') st = get_notice E id' st"
| "api E now (POST_notices b) st = create_notice E now b st"
| "api E now (PUT_notice id' b) st = update_notice E id' b st"
| "api E now (POST_publish id') st = publish_notice E now id' st"
| "api E now (DELETE_notice id') st = delete_notice E id' st"
| "api E now (POST_batch_delete ids) st = batch_delete E ids st"

text \<open>
  The one-way rule of the status, as a relation between the storage before and after
  a request: every row of the storage after is published, or has the id of a row that
  was a draft before, or is the row that the request has created.
\<close>

definition no_unpublish :: "storage \<Rightarrow> storage \<Rightarrow> bool" where
  "no_unpublish st st' =
     list_all
       (\<lambda>r'. status r' = Published \<or>
             list_ex (\<lambda>r. notice_id r = notice_id r' \<and> status r = Draft) (rows st) \<or>
             notice_id r' = next_id st)
       (rows st')"

section \<open>An engine for evaluation\<close>

text \<open>
  The closed statements of this theory evaluate the program with the engine
  \<open>reference\<close>. It is used on the inputs that occur in them only, and there it gives
  what the platform gives:
  \<^item> its \<open>StringToNumber\<close> trims white space, takes the empty text to 0, and reads
    an optional sign before \<open>Infinity\<close> or before a decimal literal with or without
    a fraction; exponents and radix prefixes are not implemented, and text that is
    none of these is taken to NaN;
  \<^item> its \<open>NumberToString\<close> renders NaN, the infinities and integers; a fraction is
    not rendered (the empty text stands for it);
  \<^item> its \<open>ToPrimitive\<close> joins the texts of an array's elements with commas, with the
    empty text for \<open>undefined\<close> and \<open>null\<close>; an object converts to \<open>[object Object]\<close>
    unless it has an own property \<open>toString\<close>, which is not callable and makes the
    conversion throw;
  \<^item> its \<open>xss\<close> escapes \<open><\<close> and \<open>>\<close>, which is what the filter does to text that
    holds no tag.
\<close>

definition is_digit :: "char \<Rightarrow> bool" where
  "is_digit c = (48 \<le> (of_char c :: nat) \<and> (of_char c :: nat) \<le> 57)"

fun digits_value :: "nat \<Rightarrow> string \<Rightarrow> nat option" where
  "digits_value acc [] = Some acc"
| "digits_value acc (c # cs) =
     (if is_digit c then digits_value (10 * acc + (of_char c - 48)) cs else None)"

text \<open>
  An unsigned decimal literal without exponent: digits, digits with a fraction, or a
  fraction alone.
\<close>

definition unsigned_value :: "string \<Rightarrow> real option" where
  "unsigned_value u =
     (let ip = takeWhile (\<lambda>c. c \<noteq> CHR ''.'') u
      in case dropWhile (\<lambda>c. c \<noteq> CHR ''.'') u of
           [] \<Rightarrow> (if ip = [] then None else map_option real (digits_value 0 ip))
         | dot # fp \<Rightarrow>
             if ip = [] \<and> fp = [] then None
             else (case (digits_value 0 ip, digits_value 0 fp) of
                     (Some a, Some b) \<Rightarrow> Some (real a + real b / 10 ^ length fp)
                   | _ \<Rightarrow> None))"

definition unsigned_number :: "string \<Rightarrow> jsnum" where
  "unsigned_number u =
     (if u = ''Infinity'' then PosInf
      else case unsigned_value u of None \<Rightarrow> NaN | Some r \<Rightarrow> Fin r)"

fun negated :: "jsnum \<Rightarrow> jsnum" where
  "negated NaN = NaN"
| "negated NegInf = PosInf"
| "negated (Fin r) = Fin (- r)"
| "negated PosInf = NegInf"

definition reference_StringToNumber :: "string \<Rightarrow> jsnum" where
  "reference_StringToNumber s =
     (case trim s of
        [] \<Rightarrow> Fin 0
      | c # cs \<Rightarrow>
          if c = CHR ''-'' then negated (unsigned_number cs)
          else if c = CHR ''+'' then unsigned_number cs
          else unsigned_number (c # cs))"

definition reference_NumberToString :: "jsnum \<Rightarrow> string" where
  "reference_NumberToString x =
     (case x of
        NaN \<Rightarrow> ''NaN''
      | PosInf \<Rightarrow> ''Infinity''
      | NegInf \<Rightarrow> ''-Infinity''
      | Fin r \<Rightarrow>
          if r = of_int \<lfloor>r\<rfloor>
          then (if r < 0 then CHR ''-'' # decimal (nat (- \<lfloor>r\<rfloor>)) else decimal (nat \<lfloor>r\<rfloor>))
          else [])"

fun join_comma :: "string list \<Rightarrow> string" where
  "join_comma [] = []"
| "join_comma [s] = s"
| "join_comma (s # t # ss) = s @ '','' @ join_comma (t # ss)"

fun all_some :: "'a option list \<Rightarrow> 'a list option" where
  "all_some [] = Some []"
| "all_some (x # xs) =
     (case x of None \<Rightarrow> None
      | Some y \<Rightarrow> (case all_some xs of None \<Rightarrow> None | Some ys \<Rightarrow> Some (y # ys)))"

fun reference_text :: "jsval \<Rightarrow> string option" where
  "reference_text Undefined = Some ''undefined''"
| "reference_text Null = Some ''null''"
| "reference_text (Bool b) = Some (if b then ''true'' else ''false'')"
| "reference_text (Num x) = Some (reference_NumberToString x)"
| "reference_text (Str s) = Some s"
| "reference_text (Arr xs) =
     map_option join_comma
       (all_some (map (\<lambda>x. if x = Undefined \<or> x = Null then Some [] else reference_text x) xs))"
| "reference_text (Obj kvs) =
     (if ''toString'' \<in> set (map fst kvs) then None else Some ''[object Object]'')"

definition escapeHtml :: "string \<Rightarrow> string" where
  "escapeHtml s =
     concat (map (\<lambda>c. if c = CHR ''<'' then ''&lt;'' else if c = CHR ''>'' then ''&gt;'' else [c]) s)"

definition reference :: engine where
  "reference =
     \<lparr>StringToNumber = reference_StringToNumber,
      NumberToString = reference_NumberToString,
      ToPrimitive = reference_text,
      xss = escapeHtml\<rparr>"

text \<open>A table of three notices, and the empty table of a fresh installation.\<close>

definition sample_rows :: "notice list" where
  "sample_rows =
     [\<lparr>notice_id = 1, title = Str ''Opening hours'', content = Str ''<p>9 to 5</p>'',
       content_delta = None, status = Published, publish_time = Some 120, created_at = 100\<rparr>,
      \<lparr>notice_id = 2, title = Str ''Holiday'', content = Str ''<p>Closed</p>'',
       content_delta = Some ''{}'', status = Draft, publish_time = None, created_at = 200\<rparr>,
      \<lparr>notice_id = 3, title = Str ''Maintenance'', content = Str ''<p>Sunday</p>'',
       content_delta = None, status = Draft, publish_time = None, created_at = 300\<rparr>]"

definition sample :: storage where
  "sample = \<lparr>rows = sample_rows, next_id = 4, issued = []\<rparr>"

definition empty_storage :: storage where
  "empty_storage = \<lparr>rows = [], next_id = 1, issued = []\<rparr>"

section \<open>Facts about the string functions\<close>

lemma of_char_lower_char:
  "(of_char (lower_char c) :: nat) =
     (if (65 \<le> (of_char c :: nat) \<and> (of_char c :: nat) \<le> 90) \<or> (192 \<le> (of_char c :: nat) \<and> (of_char c :: nat) \<le> 214)
         \<or> (216 \<le> (of_char c :: nat) \<and> (of_char c :: nat) \<le> 222)
      then of_char c + 32 else of_char c)"
  by (simp add: lower_char_def Let_def of_char_of)

lemma lower_char_idem: "lower_char (lower_char c) = lower_char c"
proof -
  have "(of_char (lower_char (lower_char c)) :: nat) = of_char (lower_char c)"
    by (simp add: of_char_lower_char)
  then show ?thesis by (simp only: of_char_eq_iff)
qed

lemma lower_char_dot: "(lower_char c = CHR ''.'') = (c = CHR ''.'')"
proof -
  have "((of_char (lower_char c) :: nat) = of_char (CHR ''.'')) = ((of_char c :: nat) = of_char (CHR ''.''))"
    by (simp add: of_char_lower_char)
  then show ?thesis by (simp only: of_char_eq_iff)
qed

lemma lower_char_slash: "(lower_char c = CHR ''/'') = (c = CHR ''/'')"
proof -
  have "((of_char (lower_char c) :: nat) = of_char (CHR ''/'')) = ((of_char c :: nat) = of_char (CHR ''/''))"
    by (simp add: of_char_lower_char)
  then show ?thesis by (simp only: of_char_eq_iff)
qed

lemma toLowerCase_idem: "toLowerCase (toLowerCase s) = toLowerCase s"
  by (simp add: toLowerCase_def lower_char_idem)

lemma extname_shape:
  "extname p = [] \<or> (\<exists>s. extname p = CHR ''.'' # s \<and> CHR ''.'' \<notin> set s \<and> CHR ''/'' \<notin> set s)"
proof -
  define b where "b = takeWhile (\<lambda>c. c \<noteq> CHR ''/'') (dropWhile (\<lambda>c. c = CHR ''/'') (rev p))"
  define e where "e = takeWhile (\<lambda>c. c \<noteq> CHR ''.'') b"
  have e1: "CHR ''.'' \<notin> set e"
    unfolding e_def by (auto dest: set_takeWhileD)
  have "CHR ''/'' \<notin> set b"
    unfolding b_def by (auto dest: set_takeWhileD)
  then have e2: "CHR ''/'' \<notin> set e"
    unfolding e_def by (auto dest: set_takeWhileD)
  have "extname p = [] \<or> extname p = CHR ''.'' # rev e"
    by (simp add: extname_def Let_def b_def e_def)
  with e1 e2 show ?thesis by auto
qed

lemma takeWhile_neq_append:
  "c \<notin> set xs \<Longrightarrow> takeWhile (\<lambda>x. x \<noteq> c) (xs @ ys) = xs @ takeWhile (\<lambda>x. x \<noteq> c) ys"
  by (induction xs) auto

lemma extname_append_ext:
  assumes "p \<noteq> []" and "last p \<noteq> CHR ''.''" and "last p \<noteq> CHR ''/''"
    and "CHR ''.'' \<notin> set s" and "CHR ''/'' \<notin> set s"
  shows "extname (p @ CHR ''.'' # s) = CHR ''.'' # s"
proof -
  obtain q c where p: "p = q @ [c]" using assms(1) by (metis append_butlast_last_id)
  have c: "c \<noteq> CHR ''.''" "c \<noteq> CHR ''/''" using assms(2,3) p by auto
  let ?t = "takeWhile (\<lambda>c. c \<noteq> CHR ''/'') (rev q)"
  have r: "rev (p @ CHR ''.'' # s) = rev s @ CHR ''.'' # c # rev q" by (simp add: p)
  have d: "dropWhile (\<lambda>c. c = CHR ''/'') (rev s @ CHR ''.'' # c # rev q) = rev s @ CHR ''.'' # c # rev q"
    using assms(5) by (cases "rev s") auto
  have b: "takeWhile (\<lambda>c. c \<noteq> CHR ''/'') (rev s @ CHR ''.'' # c # rev q) = rev s @ CHR ''.'' # c # ?t"
    using assms(5) c by (simp add: takeWhile_neq_append)
  have e: "takeWhile (\<lambda>c. c \<noteq> CHR ''.'') (rev s @ CHR ''.'' # c # ?t) = rev s"
    using assms(4) by (simp add: takeWhile_neq_append)
  have n: "rev s @ CHR ''.'' # c # ?t \<noteq> ''..''"
    using c assms(4) by (cases "rev s") auto
  show ?thesis
    unfolding extname_def r d b Let_def e using n by simp
qed

lemma regex_test_Nil: "\<not> regex_test allowedFileTypes []"
  by (simp add: allowedFileTypes_def)

lemma extname_examples:
  "extname ''index.html'' = ''.html''" "extname ''index.coffee.md'' = ''.md''"
  "extname ''index.'' = ''.''" "extname ''index'' = []" "extname ''.index'' = []"
  "extname ''.index.md'' = ''.md''" "extname ''..'' = []" "extname ''a/b.png/'' = ''.png''"
  by (simp_all add: extname_def)

lemma hex_last:
  assumes "list_all is_hex t"
  shows "(decimal now @ ''_'' @ t) \<noteq> [] \<and> last (decimal now @ ''_'' @ t) \<noteq> CHR ''.''
         \<and> last (decimal now @ ''_'' @ t) \<noteq> CHR ''/''"
proof (cases "t = []")
  case True
  then show ?thesis by simp
next
  case False
  then have "last t \<in> set t" by simp
  with assms have "is_hex (last t)" by (simp add: list_all_iff)
  then have "last t \<noteq> CHR ''.'' \<and> last t \<noteq> CHR ''/''" by (auto simp: is_hex_def)
  with False show ?thesis by simp
qed

lemma accepted_filename_ext:
  assumes "fileFilter file = None" and "list_all is_hex (drop 2 rnd)"
  shows "extname (filename now rnd file) = toLowerCase (extname (originalname file))"
proof -
  from assms(1) have t: "regex_test allowedFileTypes (toLowerCase (extname (originalname file)))"
    by (simp add: fileFilter_def Let_def split: if_splits)
  then have "extname (originalname file) \<noteq> []"
    using regex_test_Nil by (auto simp: toLowerCase_def)
  with extname_shape [of "originalname file"] obtain s where
    s: "extname (originalname file) = CHR ''.'' # s" "CHR ''.'' \<notin> set s" "CHR ''/'' \<notin> set s"
    by auto
  have l: "toLowerCase (extname (originalname file)) = CHR ''.'' # map lower_char s"
    by (simp add: s(1) toLowerCase_def lower_char_def Let_def)
  have m: "CHR ''.'' \<notin> set (map lower_char s)" "CHR ''/'' \<notin> set (map lower_char s)"
    using s(2,3) lower_char_dot lower_char_slash by (metis imageE list.set_map)+
  from hex_last [OF assms(2), of now] extname_append_ext [OF _ _ _ m, of "decimal now @ ''_'' @ drop 2 rnd"]
  have "extname ((decimal now @ ''_'' @ drop 2 rnd) @ CHR ''.'' # map lower_char s) = CHR ''.'' # map lower_char s"
    by blast
  then show ?thesis
    by (simp add: filename_def Let_def l)
qed

lemma scan_slashes:
  "scan r None None True 0 = scan (dropWhile (\<lambda>c. c = CHR ''/'') r) None None True 0"
  by (induction r) simp_all

lemma scan_plain:
  assumes "CHR ''.'' \<notin> set xs" and "CHR ''/'' \<notin> set xs"
  shows "scan (xs @ r) None (Some e) False pd = scan r None (Some e) False pd"
  using assms by (induction xs) (auto simp: Let_def)

lemma scan_before_dot:
  assumes "CHR ''.'' \<notin> set xs" and "CHR ''/'' \<notin> set xs"
  shows "scan (xs @ CHR ''.'' # r) None None True 0 =
         scan r (Some (length r)) (Some (length (xs @ CHR ''.'' # r))) False 0"
proof (cases xs)
  case Nil
  then show ?thesis by (simp add: Let_def)
next
  case (Cons c cs)
  then have c: "c \<noteq> CHR ''.''" "c \<noteq> CHR ''/''" "CHR ''.'' \<notin> set cs" "CHR ''/'' \<notin> set cs"
    using assms by auto
  have "scan (xs @ CHR ''.'' # r) None None True 0 =
        scan (cs @ CHR ''.'' # r) None (Some (length (xs @ CHR ''.'' # r))) False 0"
    using c by (simp add: Cons Let_def)
  also have "\<dots> = scan (CHR ''.'' # r) None (Some (length (xs @ CHR ''.'' # r))) False 0"
    by (rule scan_plain [OF c(3,4)])
  also have "\<dots> = scan r (Some (length r)) (Some (length (xs @ CHR ''.'' # r))) False 0"
    by (simp add: Let_def)
  finally show ?thesis .
qed

lemma scan_no_dot:
  assumes "CHR ''.'' \<notin> set xs" and "CHR ''/'' \<notin> set xs" and "xs \<noteq> []"
  shows "scan (xs @ r) None None True 0 = scan r None (Some (length (xs @ r))) False 0"
proof -
  obtain c cs where xs: "xs = c # cs" using assms(3) by (cases xs) auto
  then have c: "c \<noteq> CHR ''.''" "c \<noteq> CHR ''/''" "CHR ''.'' \<notin> set cs" "CHR ''/'' \<notin> set cs"
    using assms by auto
  have "scan (xs @ r) None None True 0 = scan (cs @ r) None (Some (length (xs @ r))) False 0"
    using c by (simp add: xs Let_def)
  also have "\<dots> = scan r None (Some (length (xs @ r))) False 0"
    by (rule scan_plain [OF c(3,4)])
  finally show ?thesis .
qed

lemma scan_after_dot:
  assumes "CHR ''/'' \<notin> set xs"
  shows "scan (xs @ r) (Some d) (Some e) False pd =
         scan r (Some d) (Some e) False
           (if xs = [] then pd else if last xs = CHR ''.'' then 1 else - 1)"
  using assms by (induction xs arbitrary: pd) (auto simp: Let_def)

lemma scan_tail:
  assumes "t = [] \<or> hd t = CHR ''/''"
  shows "scan t sd en False pd = (sd, length t, en, pd)"
  using assms by (cases t) simp_all


lemma extname_scan_eq: "extname_scan p = extname p"
proof -
  define r1 where "r1 = dropWhile (\<lambda>c. c = CHR ''/'') (rev p)"
  define b where "b = takeWhile (\<lambda>c. c \<noteq> CHR ''/'') r1"
  define t where "t = dropWhile (\<lambda>c. c \<noteq> CHR ''/'') r1"
  define e where "e = takeWhile (\<lambda>c. c \<noteq> CHR ''.'') b"
  define d where "d = dropWhile (\<lambda>c. c \<noteq> CHR ''.'') b"
  have r1: "r1 = b @ t" by (simp add: b_def t_def)
  have b: "b = e @ d" by (simp add: e_def d_def)
  have nb: "CHR ''/'' \<notin> set b" unfolding b_def by (auto dest: set_takeWhileD)
  have ne: "CHR ''.'' \<notin> set e" "CHR ''/'' \<notin> set e"
    using nb unfolding e_def by (auto dest: set_takeWhileD)
  have t: "t = [] \<or> hd t = CHR ''/''"
    unfolding t_def by (metis (mono_tags, lifting) dropWhile_eq_Nil_conv hd_dropWhile)
  have sc: "scan (rev p) None None True 0 = scan r1 None None True 0"
    unfolding r1_def by (rule scan_slashes)
  have ex: "extname p = (if CHR ''.'' \<notin> set b then []
         else if Suc (length e) = length b then []
         else if b = ''..'' then []
         else CHR ''.'' # rev e)"
    by (simp add: extname_def Let_def b_def r1_def e_def)
  obtain sl where p: "rev p = sl @ r1"
    unfolding r1_def by (metis takeWhile_dropWhile_id)
  show ?thesis
  proof (cases "d = []")
    case True
    then have be: "b = e" using b by simp
    then have nd: "CHR ''.'' \<notin> set b" using ne by simp
    have "fst (scan r1 None None True 0) = None"
    proof (cases "b = []")
      case True
      then have "r1 = t" using r1 by simp
      moreover have "r1 = [] \<or> hd r1 \<noteq> CHR ''/''"
        unfolding r1_def by (metis (mono_tags, lifting) dropWhile_eq_Nil_conv hd_dropWhile)
      ultimately have "r1 = []" using t by auto
      then show ?thesis by simp
    next
      case False
      have "scan r1 None None True 0 = scan t None (Some (length (b @ t))) False 0"
        unfolding r1 using nd nb False by (rule scan_no_dot)
      then show ?thesis by (simp add: scan_tail [OF t])
    qed
    then have "extname_scan p = []"
      by (auto simp: extname_scan_def sc split: prod.splits option.splits)
    then show ?thesis using nd by (simp add: ex)
  next
    case False
    then obtain x rest where d: "d = x # rest" by (cases d) auto
    have "x = CHR ''.''"
      using d hd_dropWhile [of "\<lambda>c. c \<noteq> CHR ''.''" b] unfolding d_def by auto
    then have bd: "b = e @ CHR ''.'' # rest" using b d by simp
    have nr: "CHR ''/'' \<notin> set rest" using nb bd by auto
    have dot: "CHR ''.'' \<in> set b" using bd by simp
    let ?pd = "if rest = [] then 0 else if last rest = CHR ''.'' then 1 else - 1 :: int"
    have "scan r1 None None True 0 =
          scan (rest @ t) (Some (length (rest @ t))) (Some (length r1)) False 0"
      unfolding r1 bd using scan_before_dot [OF ne, of "rest @ t"] by simp
    also have "\<dots> = scan t (Some (length (rest @ t))) (Some (length r1)) False ?pd"
      by (rule scan_after_dot [OF nr])
    also have "\<dots> = (Some (length (rest @ t)), length t, Some (length r1), ?pd)"
      by (rule scan_tail [OF t])
    finally have s: "scan (rev p) None None True 0 =
        (Some (length (rest @ t)), length t, Some (length r1), ?pd)"
      using sc by simp
    have len: "length r1 = length e + 1 + length rest + length t"
      by (simp add: r1 bd)
    have pp: "p = rev t @ rev rest @ CHR ''.'' # rev e @ rev sl"
      using p r1 bd by (metis append.assoc append_Cons rev_append rev_rev_ident rev.simps(2) append_Nil)
    have sl: "take (length r1 - length (rest @ t)) (drop (length (rest @ t)) p) = CHR ''.'' # rev e"
      by (simp add: pp len)
    have c2: "(Suc (length e) = length b) = (rest = [])"
      by (simp add: bd)
    have c3: "(b = ''..'') = (e = [] \<and> rest = [CHR ''.''])"
      using ne by (cases e) (auto simp: bd)
    show ?thesis
    proof (cases "rest = []")
      case True
      then show ?thesis using dot by (simp add: extname_scan_def s ex c2)
    next
      case False
      have "(?pd = 1 \<and> length (rest @ t) = length r1 - 1 \<and> length (rest @ t) = length t + 1)
            = (e = [] \<and> rest = [CHR ''.''])"
        using False by (cases rest; cases "tl rest") (auto simp: len)
      then show ?thesis
        using dot False by (simp add: extname_scan_def s ex c2 c3 sl del: length_append)
    qed
  qed
qed

section \<open>Upload guard: the claims\<close>

text \<open>
  What holds of the filter: a file it rejects leaves the directory as it was, the four
  listed extensions are accepted in any case of letters, \<open>.exe\<close> is rejected, and a
  \<open>.png\<close> of 6 MB is answered with the message of the size limit.
\<close>

lemma rejected_upload_stores_nothing:
  assumes "fileFilter file = Some e"
  shows "api_upload host now rnd (Some file) dir = (ServerError, dir)"
  using assms by (simp add: api_upload_def single_def)

lemma listed_extensions_accepted:
  assumes "toLowerCase (extname (originalname file)) \<in> {''.jpeg'', ''.jpg'', ''.png'', ''.gif''}"
  shows "fileFilter file = None"
  using assms by (auto simp: fileFilter_def Let_def allowedFileTypes_def)

lemma exe_rejected:
  "api_upload ''127.0.0.1:3000'' 1700000000000 ''0.a3f''
       (Some \<lparr>originalname = ''setup.EXE'', size_bytes = 1024\<rparr>) [] = (ServerError, [])"
  by (simp add: api_upload_def single_def fileFilter_def extname_def toLowerCase_def
      lower_char_def allowedFileTypes_def char_of_def bit_Suc_0_iff)

lemma large_png_rejected:
  "api_upload ''127.0.0.1:3000'' 1700000000000 ''0.a3f''
       (Some \<lparr>originalname = ''photo.png'', size_bytes = 6 * 1024 * 1024\<rparr>) [] =
     (Bad ''File too large. Maximum size is 5MB.'', [])"
  by (simp add: api_upload_def single_def fileFilter_def destination_def extname_def
      toLowerCase_def lower_char_def allowedFileTypes_def fileSize_limit_def)

text \<open>
  C1, evaluated at the file name \<open>payload.jpgx\<close>: the claim says that a file is accepted
  only if its extension is one of jpeg, jpg, png, gif. The pattern is not anchored, so
  the extension \<open>.jpgx\<close> passes the filter and \<open>destination\<close>, the file is stored in the
  content directory, the second check passes as well and the request is answered with
  the URL of the stored file.
\<close>

theorem upload_accepts_jpgx:
  "fileFilter \<lparr>originalname = ''payload.jpgx'', size_bytes = 1024\<rparr> = None \<and>
   api_upload ''127.0.0.1:3000'' 1700000000000 ''0.a3f''
       (Some \<lparr>originalname = ''payload.jpgx'', size_bytes = 1024\<rparr>) [] =
     (Ok ''http://127.0.0.1:3000/uploads/1700000000000_a3f.jpgx'', [''1700000000000_a3f.jpgx''])"
  by (simp add: api_upload_def single_def fileFilter_def destination_def filename_def
      upload_handler_def extname_def toLowerCase_def lower_char_def allowedFileTypes_def
      fileSize_limit_def digit_char_def char_of_def bit_Suc_0_iff)

text \<open>
  C9: for every file that the filter accepts, the stored name
  (\<open>Date.now()\<close>, an underscore, the hexadecimal token, the lower-cased extension of the
  original name) has an extension that passes the second check. So the handler answers
  the URL and leaves the directory as it is: its branch that unlinks the stored file is
  not taken, and an accepted upload within the size limit ends with the file in the
  directory.
\<close>

theorem accepted_upload_passes_recheck:
  assumes "fileFilter file = None" and "list_all is_hex (drop 2 rnd)"
  shows "regex_test allowedFileTypes (toLowerCase (extname (filename now rnd file))) \<and>
         upload_handler host (filename now rnd file) dir =
           (Ok (''http://'' @ host @ ''/uploads/'' @ filename now rnd file), dir) \<and>
         (size_bytes file \<le> fileSize_limit \<longrightarrow>
            api_upload host now rnd (Some file) dir =
              (Ok (''http://'' @ host @ ''/uploads/'' @ filename now rnd file),
               List.insert (filename now rnd file) dir))"
proof -
  from assms(1) have t: "regex_test allowedFileTypes (toLowerCase (extname (originalname file)))"
    by (simp add: fileFilter_def Let_def split: if_splits)
  have e: "toLowerCase (extname (filename now rnd file)) = toLowerCase (extname (originalname file))"
    by (simp add: accepted_filename_ext [OF assms] toLowerCase_idem)
  have r: "regex_test allowedFileTypes (toLowerCase (extname (filename now rnd file)))"
    using t e by simp
  have h: "upload_handler host (filename now rnd file) d =
           (Ok (''http://'' @ host @ ''/uploads/'' @ filename now rnd file), d)" for d
    using r by (simp add: upload_handler_def Let_def)
  have d: "destination file = Inr uploadDir"
    using t by (simp add: destination_def Let_def)
  have "size_bytes file \<le> fileSize_limit \<longrightarrow>
            api_upload host now rnd (Some file) dir =
              (Ok (''http://'' @ host @ ''/uploads/'' @ filename now rnd file),
               List.insert (filename now rnd file) dir)"
    by (simp add: api_upload_def single_def assms(1) d h)
  with r h show ?thesis by blast
qed

theorem accepted_upload_passes_recheck_witness:
  "fileFilter \<lparr>originalname = ''Photo.PNG'', size_bytes = 2048\<rparr> = None \<and>
   list_all is_hex (drop 2 ''0.8c4e1'') \<and>
   size_bytes \<lparr>originalname = ''Photo.PNG'', size_bytes = 2048\<rparr> \<le> fileSize_limit \<and>
   regex_test allowedFileTypes (toLowerCase (extname ''1700000000000_8c4e1.png'')) \<and>
   upload_handler ''127.0.0.1:3000'' ''1700000000000_8c4e1.png'' [''1700000000000_8c4e1.png''] =
     (Ok ''http://127.0.0.1:3000/uploads/1700000000000_8c4e1.png'', [''1700000000000_8c4e1.png'']) \<and>
   api_upload ''127.0.0.1:3000'' 1700000000000 ''0.8c4e1''
       (Some \<lparr>originalname = ''Photo.PNG'', size_bytes = 2048\<rparr>) [] =
     (Ok ''http://127.0.0.1:3000/uploads/1700000000000_8c4e1.png'', [''1700000000000_8c4e1.png''])"
proof -
  let ?f = "\<lparr>originalname = ''Photo.PNG'', size_bytes = 2048\<rparr>"
  have f: "fileFilter ?f = None"
    by (simp add: fileFilter_def extname_def toLowerCase_def lower_char_def allowedFileTypes_def
        char_of_def bit_Suc_0_iff)
  have x: "list_all is_hex (drop 2 ''0.8c4e1'')"
    by (simp add: is_hex_def)
  have l: "size_bytes ?f \<le> fileSize_limit"
    by (simp add: fileSize_limit_def)
  have n: "filename 1700000000000 ''0.8c4e1'' ?f = ''1700000000000_8c4e1.png''"
    by (simp add: filename_def extname_def toLowerCase_def lower_char_def digit_char_def
        char_of_def bit_Suc_0_iff)
  note h = accepted_upload_passes_recheck [OF f x, where now = 1700000000000
      and host = "''127.0.0.1:3000''", unfolded n]
  have a: "regex_test allowedFileTypes (toLowerCase (extname ''1700000000000_8c4e1.png''))"
    by (rule h [where dir = "[]", THEN conjunct1])
  have b: "upload_handler ''127.0.0.1:3000'' ''1700000000000_8c4e1.png'' [''1700000000000_8c4e1.png''] =
     (Ok ''http://127.0.0.1:3000/uploads/1700000000000_8c4e1.png'', [''1700000000000_8c4e1.png''])"
    using h [where dir = "[''1700000000000_8c4e1.png'']", THEN conjunct2, THEN conjunct1] by simp
  have c: "api_upload ''127.0.0.1:3000'' 1700000000000 ''0.8c4e1'' (Some ?f) [] =
     (Ok ''http://127.0.0.1:3000/uploads/1700000000000_8c4e1.png'', [''1700000000000_8c4e1.png''])"
    using h [where dir = "[]", THEN conjunct2, THEN conjunct2, THEN mp, OF l] by simp
  show ?thesis
    using f x l a b c by (intro conjI)
qed

section \<open>Facts about the validators\<close>

lemmas reference_defs =
  reference_def reference_StringToNumber_def unsigned_number_def unsigned_value_def
  reference_NumberToString_def escapeHtml_def
  trim_def is_space_def is_digit_def

lemma validateId_invalid:
  assumes "StringToNumber E id' = NaN \<or> num_le (StringToNumber E id') (Fin 0)"
  shows "validateId E id' = Some ''Invalid ID''"
  using assms by (auto simp: validateId_def Let_def)

lemma validateId_valid:
  assumes "StringToNumber E id' = Fin x" and "0 < x"
  shows "validateId E id' = None"
  using assms by (simp add: validateId_def Let_def)

lemma validateTitle_Str:
  "validateTitle E (Str s) =
     Return (if s = [] then Some ''Title is required''
             else if 255 < length s then Some ''Title is too long (max 255 characters)''
             else None)"
  by (simp add: validateTitle_def length_gt_def get_length_def js_gt_def Number_def)

lemma validateContent_Str:
  "validateContent E (Str s) =
     Return (if s = [] then Some ''Content is required''
             else if 50000 < length s then Some ''Content is too long (max 50000 characters)''
             else None)"
  by (simp add: validateContent_def length_gt_def get_length_def js_gt_def Number_def)

lemma reference_number_examples:
  "StringToNumber reference ''abc'' = NaN" "StringToNumber reference ''0'' = Fin 0"
  "StringToNumber reference ''2'' = Fin 2" "StringToNumber reference ''-3'' = Fin (- 3)"
  "StringToNumber reference ''100'' = Fin 100" "StringToNumber reference ''101'' = Fin 101"
  by (simp_all add: reference_defs)

section \<open>Validation of identifiers and of the page\<close>

text \<open>
  C4: when the route parameter \<open>id\<close> is no number (its conversion is NaN) or converts
  to a number that is at most 0, each of the four handlers addressed by an id (get,
  update, publish, delete) answers \<open>Invalid ID\<close> and returns the storage as it
  was: no row has changed and no statement has been issued.
\<close>

theorem invalid_id_rejected:
  assumes "StringToNumber E id' = NaN \<or> num_le (StringToNumber E id') (Fin 0)"
  shows "get_notice E id' st = (Bad ''Invalid ID'', st) \<and>
         update_notice E id' b st = (Bad ''Invalid ID'', st) \<and>
         publish_notice E now id' st = (Bad ''Invalid ID'', st) \<and>
         delete_notice E id' st = (Bad ''Invalid ID'', st)"
  by (simp add: validateId_invalid [OF assms] get_notice_def update_notice_def
      publish_notice_def delete_notice_def)

theorem invalid_id_rejected_witness:
  "StringToNumber reference ''abc'' = NaN \<and>
   get_notice reference ''abc'' sample = (Bad ''Invalid ID'', sample) \<and>
   publish_notice reference 500 ''abc'' sample = (Bad ''Invalid ID'', sample) \<and>
   num_le (StringToNumber reference ''0'') (Fin 0) \<and>
   delete_notice reference ''0'' sample = (Bad ''Invalid ID'', sample) \<and>
   num_le (StringToNumber reference ''-3'') (Fin 0) \<and>
   update_notice reference ''-3''
       \<lparr>body_title = Str ''t'', body_content = Str ''c'', body_content_delta = Undefined\<rparr> sample
     = (Bad ''Invalid ID'', sample)"
proof -
  have a: "StringToNumber reference ''abc'' = NaN \<or> num_le (StringToNumber reference ''abc'') (Fin 0)"
    by (simp add: reference_number_examples)
  have z: "StringToNumber reference ''0'' = NaN \<or> num_le (StringToNumber reference ''0'') (Fin 0)"
    by (simp add: reference_number_examples)
  have n: "StringToNumber reference ''-3'' = NaN \<or> num_le (StringToNumber reference ''-3'') (Fin 0)"
    by (simp add: reference_number_examples)
  from invalid_id_rejected [OF a] invalid_id_rejected [OF z] invalid_id_rejected [OF n]
  show ?thesis by (simp add: reference_number_examples)
qed

text \<open>
  C3, evaluated at \<open>GET /api/notices?page=abc\<close>: the claim says that a page that is
  not greater than 0 is answered \<open>page/size invalid\<close> before any storage call. The
  page converts to NaN, and \<open>page <= 0\<close> is false for NaN, so the check lets the
  request through (\<open>validateId\<close> has the test \<open>!numId\<close> for this case; the page
  check has none). The offset is NaN as well, the statement is issued with it, the
  storage rejects it, and the answer is the server error.
\<close>

theorem list_notices_page_not_a_number:
  "list_notices reference (Str ''abc'') Undefined Undefined sample =
     (ServerError, issue (SelectPage None (Fin 10) NaN) sample)"
  by (simp add: list_notices_def Number_def reference_number_examples query_status_def trim_def
      db_select_page_def sql_count_def)

section \<open>Facts about the write handlers\<close>

lemma trim_padded:
  assumes "\<not> is_space c"
  shows "trim (replicate n (CHR '' '') @ [c]) = [c]"
proof -
  have "dropWhile is_space (replicate n (CHR '' '') @ [c]) = [c]"
    using assms by (induction n) (simp_all add: is_space_def)
  then show ?thesis using assms by (simp add: trim_def)
qed

lemma trim_replicate:
  assumes "\<not> is_space c"
  shows "trim (replicate n c) = replicate n c"
proof -
  have "dropWhile is_space (replicate n c) = replicate n c"
    using assms by (cases n) simp_all
  then show ?thesis by (simp add: trim_def)
qed

lemma escapeHtml_replicate:
  assumes "c \<noteq> CHR ''<''" and "c \<noteq> CHR ''>''"
  shows "escapeHtml (replicate n c) = replicate n c"
  using assms by (induction n) (simp_all add: escapeHtml_def)

lemma reference_xss: "xss reference s = escapeHtml s"
  by (simp add: reference_def)

lemma delta_text_absent: "delta_text E Undefined = Return None"
  by (simp add: delta_text_def)

lemma checked_fields_long_title:
  assumes "body_title b = Str t" and "255 < length (xss E (trim t))"
    and "delta_text E (body_content_delta b) = Return d"
  shows "checked_fields E b = Inl (Bad ''Title is too long (max 255 characters)'')"
proof -
  have "xss E (trim t) \<noteq> []" using assms(2) by auto
  then show ?thesis
    using assms by (simp add: checked_fields_def Let_def sanitizeInput_def validateTitle_Str)
qed

text \<open>
  C2, as amended: the length that is checked is the length of the sanitised title
  (trimmed, then filtered), and the update handler checks the id first. For every
  title string whose sanitised form is longer than 255 characters, and every
  \<open>content_delta\<close> whose conversion to text does not throw, create answers
  \<open>Title is too long (max 255 characters)\<close> and so does update for an id that
  \<open>validateId\<close> accepts; the storage is returned as it was, so no statement was issued
  and no row was written or changed.
\<close>

theorem long_sanitized_title_rejected:
  assumes "body_title b = Str t" and "255 < length (xss E (trim t))"
    and "delta_text E (body_content_delta b) = Return d"
  shows "create_notice E now b st = (Bad ''Title is too long (max 255 characters)'', st) \<and>
         (validateId E id' = None \<longrightarrow>
            update_notice E id' b st = (Bad ''Title is too long (max 255 characters)'', st))"
  by (simp add: create_notice_def update_notice_def checked_fields_long_title [OF assms])

theorem long_sanitized_title_rejected_witness:
  "255 < length (xss reference (trim (replicate 256 (CHR ''a'')))) \<and>
   delta_text reference Undefined = Return None \<and>
   validateId reference ''2'' = None \<and>
   create_notice reference 400
       \<lparr>body_title = Str (replicate 256 (CHR ''a'')), body_content = Str ''c'',
        body_content_delta = Undefined\<rparr> sample
     = (Bad ''Title is too long (max 255 characters)'', sample) \<and>
   update_notice reference ''2''
       \<lparr>body_title = Str (replicate 256 (CHR ''a'')), body_content = Str ''c'',
        body_content_delta = Undefined\<rparr> sample
     = (Bad ''Title is too long (max 255 characters)'', sample)"
proof -
  let ?b = "\<lparr>body_title = Str (replicate 256 (CHR ''a'')), body_content = Str ''c'',
             body_content_delta = Undefined\<rparr>"
  have x: "xss reference (trim (replicate 256 (CHR ''a''))) = replicate 256 (CHR ''a'')"
    by (simp add: reference_xss trim_replicate escapeHtml_replicate is_space_def)
  have l: "255 < length (xss reference (trim (replicate 256 (CHR ''a''))))"
    by (simp add: x)
  have t: "body_title ?b = Str (replicate 256 (CHR ''a''))" by simp
  have d: "delta_text reference (body_content_delta ?b) = Return None"
    by (simp add: delta_text_absent)
  have v: "validateId reference ''2'' = None"
    by (simp add: validateId_def reference_number_examples)
  from long_sanitized_title_rejected [where now = 400 and st = sample and id' = "''2''", OF t l d] l v
  show ?thesis by (simp add: delta_text_absent)
qed

text \<open>
  C2 as stated fails: a title of 256 characters, 255 spaces and an \<open>a\<close>, is trimmed to
  \<open>a\<close> before it is validated, so create inserts a row; update with the id \<open>0\<close> and
  a title of 256 letters answers \<open>Invalid ID\<close>, not the error of the title; and create
  with a title of 256 letters and the \<open>content_delta\<close> \<open>{"toString": null}\<close> throws in
  \<open>String(req.body.content_delta)\<close>, before the title is validated, and answers the
  server error.
\<close>

theorem padded_title_is_stored:
  "length (replicate 255 (CHR '' '') @ ''a'') = 256 \<and>
   create_notice reference 400
       \<lparr>body_title = Str (replicate 255 (CHR '' '') @ ''a''), body_content = Str ''c'',
        body_content_delta = Undefined\<rparr> empty_storage
     = (Ok (PId 1),
        \<lparr>rows = [\<lparr>notice_id = 1, title = Str ''a'', content = Str ''c'', content_delta = None,
                   status = Draft, publish_time = None, created_at = 400\<rparr>],
         next_id = 2, issued = [Insert (Str ''a'') (Str ''c'') None]\<rparr>) \<and>
   length (replicate 256 (CHR ''a'')) = 256 \<and>
   update_notice reference ''0''
       \<lparr>body_title = Str (replicate 256 (CHR ''a'')), body_content = Str ''c'',
        body_content_delta = Undefined\<rparr> sample
     = (Bad ''Invalid ID'', sample) \<and>
   create_notice reference 400
       \<lparr>body_title = Str (replicate 256 (CHR ''a'')), body_content = Str ''c'',
        body_content_delta = Obj [(''toString'', Null)]\<rparr> sample
     = (ServerError, sample)"
proof -
  have t: "trim (replicate 255 (CHR '' '') @ ''a'') = ''a''"
    by (rule trim_padded) (simp add: is_space_def)
  have c: "trim ''c'' = ''c''"
    by (simp add: trim_def is_space_def)
  have u: "validateId reference ''0'' = Some ''Invalid ID''"
    by (simp add: validateId_def reference_number_examples)
  have d: "delta_text reference (Obj [(''toString'', Null)]) = Throw"
    by (simp add: delta_text_def ToString_def reference_def of_option_def)
  show ?thesis
    by (simp add: create_notice_def checked_fields_def sanitizeInput_def t c delta_text_absent d
        validateTitle_Str validateContent_Str db_insert_def sql_value_def issue_def
        empty_storage_def
        update_notice_def u reference_xss escapeHtml_def)
qed

section \<open>Titles and contents that are no strings\<close>

text \<open>
  A value that is no string: the sanitizer returns it as it is, and the validators read
  its \<open>length\<close>, which a number and a boolean do not have, an array always has, and an
  object has when \<open>length\<close> is one of its properties.
\<close>

lemma sanitizeInput_no_string: "\<not> is_string v \<Longrightarrow> sanitizeInput E v = v"
  by (cases v) (simp_all add: sanitizeInput_def)

lemma sanitizeInput_Str: "sanitizeInput E (Str s) = Str (xss E (trim s))"
  by (simp add: sanitizeInput_def)

lemma valid_number_or_boolean:
  assumes "truthy v" and "v = Num x \<or> v = Bool y"
  shows "validateTitle E v = Return None" and "validateContent E v = Return None"
  using assms
  by (auto simp: validateTitle_def validateContent_def length_gt_def get_length_def js_gt_def
      Number_def)

lemma validateTitle_Arr:
  "validateTitle E (Arr xs) =
     Return (if 255 < length xs then Some ''Title is too long (max 255 characters)'' else None)"
  by (simp add: validateTitle_def length_gt_def get_length_def js_gt_def Number_def)

lemma validateContent_Arr:
  "validateContent E (Arr xs) =
     Return (if 50000 < length xs then Some ''Content is too long (max 50000 characters)''
             else None)"
  by (simp add: validateContent_def length_gt_def get_length_def js_gt_def Number_def)

lemma valid_Obj_without_length:
  assumes "map_of kvs ''length'' = None"
  shows "validateTitle E (Obj kvs) = Return None" and "validateContent E (Obj kvs) = Return None"
  using assms
  by (simp_all add: validateTitle_def validateContent_def length_gt_def get_length_def js_gt_def
      Number_def)

lemma validateTitle_Obj_length:
  assumes "map_of kvs ''length'' = Some l" and "Number E l = Return n"
  shows "validateTitle E (Obj kvs) =
           Return (if num_lt (Fin 255) n then Some ''Title is too long (max 255 characters)''
                   else None)"
  using assms by (simp add: validateTitle_def length_gt_def get_length_def js_gt_def)

lemma validateContent_Obj_length:
  assumes "map_of kvs ''length'' = Some l" and "Number E l = Return n"
  shows "validateContent E (Obj kvs) =
           Return (if num_lt (Fin 50000) n
                   then Some ''Content is too long (max 50000 characters)'' else None)"
  using assms by (simp add: validateContent_def length_gt_def get_length_def js_gt_def)

lemma sql_value_Str: "sql_value (Str s)"
  by (simp add: sql_value_def)

lemma sql_value_number_or_boolean:
  assumes "truthy v" and "v = Num x \<or> v = Bool y"
  shows "sql_value v = (\<not> (v = Num PosInf \<or> v = Num NegInf))"
  using assms by (cases x) (auto simp: sql_value_def sql_number_def)

lemma checked_fields_value_title:
  assumes "truthy v" and "v = Num x \<or> v = Bool y" and "delta_text E qd = Return d"
    and "xss E (trim s) \<noteq> []" and "length (xss E (trim s)) \<le> 50000"
  shows "checked_fields E \<lparr>body_title = v, body_content = Str s, body_content_delta = qd\<rparr> =
           Inr (v, Str (xss E (trim s)), d)"
proof -
  have n: "\<not> is_string v" using assms(2) by auto
  show ?thesis
    using assms(3,4,5)
    by (simp add: checked_fields_def Let_def sanitizeInput_no_string [OF n] sanitizeInput_Str
        valid_number_or_boolean [OF assms(1,2)] validateContent_Str)
qed

lemma checked_fields_value_content:
  assumes "truthy v" and "v = Num x \<or> v = Bool y" and "delta_text E qd = Return d"
    and "xss E (trim s) \<noteq> []" and "length (xss E (trim s)) \<le> 255"
  shows "checked_fields E \<lparr>body_title = Str s, body_content = v, body_content_delta = qd\<rparr> =
           Inr (Str (xss E (trim s)), v, d)"
proof -
  have n: "\<not> is_string v" using assms(2) by auto
  show ?thesis
    using assms(3,4,5)
    by (simp add: checked_fields_def Let_def sanitizeInput_no_string [OF n] sanitizeInput_Str
        valid_number_or_boolean [OF assms(1,2)] validateTitle_Str)
qed

lemma create_with_values:
  assumes "checked_fields E b = Inr (t, c, d)"
  shows "create_notice E now b st =
           (if sql_value t \<and> sql_value c
            then (Ok (PId (next_id st)),
                  issue (Insert t c d)
                    (st\<lparr>rows := rows st @
                           [\<lparr>notice_id = next_id st, title = t, content = c, content_delta = d,
                             status = Draft, publish_time = None, created_at = now\<rparr>],
                         next_id := Suc (next_id st)\<rparr>))
            else (ServerError, issue (Insert t c d) st))"
  by (simp add: create_notice_def assms db_insert_def)

lemma update_with_values:
  assumes "checked_fields E b = Inr (t, c, d)" and "StringToNumber E id' = Fin k" and "0 < k"
  shows "update_notice E id' b st =
           (if sql_value t \<and> sql_value c
            then (Ok PTrue,
                  issue (Update t c d (Fin k))
                    (st\<lparr>rows := map (\<lambda>r. if has_id k r
                                          then r\<lparr>title := t, content := c, content_delta := d\<rparr>
                                          else r) (rows st)\<rparr>))
            else (ServerError, issue (Update t c d (Fin k)) st))"
  by (simp add: update_notice_def assms(1,2) validateId_valid [OF assms(2,3)] db_update_def
      sql_number_def)

text \<open>
  C10, as amended. \<open>sanitizeInput\<close> returns every value that is no string unchanged. A
  truthy number or boolean has no \<open>length\<close>, and both validators report it valid. A
  non-string value with a \<open>length\<close> is measured: an array is a valid title exactly when it
  has at most 255 elements and a valid content exactly when it has at most 50000; an
  object without the property \<open>length\<close> is valid, and an object whose \<open>length\<close> converts to
  the number \<open>n\<close> is too long exactly when \<open>n\<close> is greater than 255, or 50000. When a truthy
  number or boolean \<open>v\<close> is the title or the content of a request, the other field is a
  string that is valid after sanitising and \<open>content_delta\<close> converts without an
  exception, then create, and update for an id that is a positive finite number, issue
  their statement with \<open>v\<close>; for a boolean and a finite number the value is stored and the
  request succeeds, and for an infinite number the statement is rejected, the answer is
  the server error and no row is written or changed.
\<close>

theorem non_string_title_or_content:
  "(\<not> is_string v \<longrightarrow> sanitizeInput E v = v) \<and>
   (truthy v \<and> (v = Num x \<or> v = Bool y) \<longrightarrow>
      validateTitle E v = Return None \<and> validateContent E v = Return None) \<and>
   validateTitle E (Arr xs) =
     Return (if 255 < length xs then Some ''Title is too long (max 255 characters)'' else None) \<and>
   validateContent E (Arr xs) =
     Return (if 50000 < length xs then Some ''Content is too long (max 50000 characters)''
             else None) \<and>
   (map_of kvs ''length'' = None \<longrightarrow>
      validateTitle E (Obj kvs) = Return None \<and> validateContent E (Obj kvs) = Return None) \<and>
   (map_of kvs ''length'' = Some l \<and> Number E l = Return n \<longrightarrow>
      validateTitle E (Obj kvs) =
        Return (if num_lt (Fin 255) n then Some ''Title is too long (max 255 characters)''
                else None) \<and>
      validateContent E (Obj kvs) =
        Return (if num_lt (Fin 50000) n then Some ''Content is too long (max 50000 characters)''
                else None)) \<and>
   (truthy v \<and> (v = Num x \<or> v = Bool y) \<and> delta_text E qd = Return d \<and>
    xss E (trim s) \<noteq> [] \<and> length (xss E (trim s)) \<le> 50000 \<longrightarrow>
      create_notice E now \<lparr>body_title = v, body_content = Str s, body_content_delta = qd\<rparr> st =
        (if v = Num PosInf \<or> v = Num NegInf
         then (ServerError, issue (Insert v (Str (xss E (trim s))) d) st)
         else (Ok (PId (next_id st)),
               issue (Insert v (Str (xss E (trim s))) d)
                 (st\<lparr>rows := rows st @
                        [\<lparr>notice_id = next_id st, title = v, content = Str (xss E (trim s)),
                          content_delta = d, status = Draft, publish_time = None,
                          created_at = now\<rparr>],
                      next_id := Suc (next_id st)\<rparr>))) \<and>
      (StringToNumber E id' = Fin k \<and> 0 < k \<longrightarrow>
         update_notice E id' \<lparr>body_title = v, body_content = Str s, body_content_delta = qd\<rparr> st =
           (if v = Num PosInf \<or> v = Num NegInf
            then (ServerError, issue (Update v (Str (xss E (trim s))) d (Fin k)) st)
            else (Ok PTrue,
                  issue (Update v (Str (xss E (trim s))) d (Fin k))
                    (st\<lparr>rows := map (\<lambda>r. if has_id k r
                                          then r\<lparr>title := v, content := Str (xss E (trim s)),
                                                 content_delta := d\<rparr>
                                          else r) (rows st)\<rparr>))))) \<and>
   (truthy v \<and> (v = Num x \<or> v = Bool y) \<and> delta_text E qd = Return d \<and>
    xss E (trim s) \<noteq> [] \<and> length (xss E (trim s)) \<le> 255 \<longrightarrow>
      create_notice E now \<lparr>body_title = Str s, body_content = v, body_content_delta = qd\<rparr> st =
        (if v = Num PosInf \<or> v = Num NegInf
         then (ServerError, issue (Insert (Str (xss E (trim s))) v d) st)
         else (Ok (PId (next_id st)),
               issue (Insert (Str (xss E (trim s))) v d)
                 (st\<lparr>rows := rows st @
                        [\<lparr>notice_id = next_id st, title = Str (xss E (trim s)), content = v,
                          content_delta = d, status = Draft, publish_time = None,
                          created_at = now\<rparr>],
                      next_id := Suc (next_id st)\<rparr>))) \<and>
      (StringToNumber E id' = Fin k \<and> 0 < k \<longrightarrow>
         update_notice E id' \<lparr>body_title = Str s, body_content = v, body_content_delta = qd\<rparr> st =
           (if v = Num PosInf \<or> v = Num NegInf
            then (ServerError, issue (Update (Str (xss E (trim s))) v d (Fin k)) st)
            else (Ok PTrue,
                  issue (Update (Str (xss E (trim s))) v d (Fin k))
                    (st\<lparr>rows := map (\<lambda>r. if has_id k r
                                          then r\<lparr>title := Str (xss E (trim s)), content := v,
                                                 content_delta := d\<rparr>
                                          else r) (rows st)\<rparr>)))))"
proof (intro conjI impI)
  show "sanitizeInput E v = v" if "\<not> is_string v"
    by (rule sanitizeInput_no_string [OF that])
next
  assume a: "truthy v \<and> (v = Num x \<or> v = Bool y)"
  show "validateTitle E v = Return None"
    by (rule valid_number_or_boolean(1) [OF conjunct1 [OF a] conjunct2 [OF a]])
  show "validateContent E v = Return None"
    by (rule valid_number_or_boolean(2) [OF conjunct1 [OF a] conjunct2 [OF a]])
next
  show "validateTitle E (Arr xs) =
     Return (if 255 < length xs then Some ''Title is too long (max 255 characters)'' else None)"
    by (rule validateTitle_Arr)
next
  show "validateContent E (Arr xs) =
     Return (if 50000 < length xs then Some ''Content is too long (max 50000 characters)''
             else None)"
    by (rule validateContent_Arr)
next
  assume a: "map_of kvs ''length'' = None"
  show "validateTitle E (Obj kvs) = Return None"
    by (rule valid_Obj_without_length(1) [OF a])
  show "validateContent E (Obj kvs) = Return None"
    by (rule valid_Obj_without_length(2) [OF a])
next
  assume a: "map_of kvs ''length'' = Some l \<and> Number E l = Return n"
  show "validateTitle E (Obj kvs) =
        Return (if num_lt (Fin 255) n then Some ''Title is too long (max 255 characters)''
                else None)"
    by (rule validateTitle_Obj_length [OF conjunct1 [OF a] conjunct2 [OF a]])
  show "validateContent E (Obj kvs) =
        Return (if num_lt (Fin 50000) n then Some ''Content is too long (max 50000 characters)''
                else None)"
    by (rule validateContent_Obj_length [OF conjunct1 [OF a] conjunct2 [OF a]])
next
  assume a: "truthy v \<and> (v = Num x \<or> v = Bool y) \<and> delta_text E qd = Return d \<and>
    xss E (trim s) \<noteq> [] \<and> length (xss E (trim s)) \<le> 50000"
  then have tv: "truthy v" and nb: "v = Num x \<or> v = Bool y" by simp_all
  have f: "checked_fields E \<lparr>body_title = v, body_content = Str s, body_content_delta = qd\<rparr> =
           Inr (v, Str (xss E (trim s)), d)"
    using a by (intro checked_fields_value_title [OF tv nb]) simp_all
  note sv = sql_value_number_or_boolean [OF tv nb]
  show "create_notice E now \<lparr>body_title = v, body_content = Str s, body_content_delta = qd\<rparr> st =
        (if v = Num PosInf \<or> v = Num NegInf
         then (ServerError, issue (Insert v (Str (xss E (trim s))) d) st)
         else (Ok (PId (next_id st)),
               issue (Insert v (Str (xss E (trim s))) d)
                 (st\<lparr>rows := rows st @
                        [\<lparr>notice_id = next_id st, title = v, content = Str (xss E (trim s)),
                          content_delta = d, status = Draft, publish_time = None,
                          created_at = now\<rparr>],
                      next_id := Suc (next_id st)\<rparr>)))"
    unfolding create_with_values [OF f] sv by (simp add: sql_value_Str)
  show "update_notice E id' \<lparr>body_title = v, body_content = Str s, body_content_delta = qd\<rparr> st =
           (if v = Num PosInf \<or> v = Num NegInf
            then (ServerError, issue (Update v (Str (xss E (trim s))) d (Fin k)) st)
            else (Ok PTrue,
                  issue (Update v (Str (xss E (trim s))) d (Fin k))
                    (st\<lparr>rows := map (\<lambda>r. if has_id k r
                                          then r\<lparr>title := v, content := Str (xss E (trim s)),
                                                 content_delta := d\<rparr>
                                          else r) (rows st)\<rparr>)))"
    if k: "StringToNumber E id' = Fin k \<and> 0 < k"
    unfolding update_with_values [OF f conjunct1 [OF k] conjunct2 [OF k]] sv
    by (simp add: sql_value_Str)
next
  assume a: "truthy v \<and> (v = Num x \<or> v = Bool y) \<and> delta_text E qd = Return d \<and>
    xss E (trim s) \<noteq> [] \<and> length (xss E (trim s)) \<le> 255"
  then have tv: "truthy v" and nb: "v = Num x \<or> v = Bool y" by simp_all
  have f: "checked_fields E \<lparr>body_title = Str s, body_content = v, body_content_delta = qd\<rparr> =
           Inr (Str (xss E (trim s)), v, d)"
    using a by (intro checked_fields_value_content [OF tv nb]) simp_all
  note sv = sql_value_number_or_boolean [OF tv nb]
  show "create_notice E now \<lparr>body_title = Str s, body_content = v, body_content_delta = qd\<rparr> st =
        (if v = Num PosInf \<or> v = Num NegInf
         then (ServerError, issue (Insert (Str (xss E (trim s))) v d) st)
         else (Ok (PId (next_id st)),
               issue (Insert (Str (xss E (trim s))) v d)
                 (st\<lparr>rows := rows st @
                        [\<lparr>notice_id = next_id st, title = Str (xss E (trim s)), content = v,
                          content_delta = d, status = Draft, publish_time = None,
                          created_at = now\<rparr>],
                      next_id := Suc (next_id st)\<rparr>)))"
    unfolding create_with_values [OF f] sv by (simp add: sql_value_Str)
  show "update_notice E id' \<lparr>body_title = Str s, body_content = v, body_content_delta = qd\<rparr> st =
           (if v = Num PosInf \<or> v = Num NegInf
            then (ServerError, issue (Update (Str (xss E (trim s))) v d (Fin k)) st)
            else (Ok PTrue,
                  issue (Update (Str (xss E (trim s))) v d (Fin k))
                    (st\<lparr>rows := map (\<lambda>r. if has_id k r
                                          then r\<lparr>title := Str (xss E (trim s)), content := v,
                                                 content_delta := d\<rparr>
                                          else r) (rows st)\<rparr>)))"
    if k: "StringToNumber E id' = Fin k \<and> 0 < k"
    unfolding update_with_values [OF f conjunct1 [OF k] conjunct2 [OF k]] sv
    by (simp add: sql_value_Str)
qed

text \<open>
  C10 as stated fails in both of its parts. The length limit is applied to a value that
  is no string: an array of 256 elements is truthy, \<open>sanitizeInput\<close> returns it
  unchanged, its \<open>length\<close> is 256, and \<open>validateTitle\<close> reports it too long; create answers
  the error and stores nothing. And a value that the validators report valid need not be
  stored: the number \<open>Infinity\<close> (what \<open>JSON.parse\<close> makes of \<open>1e999\<close>) passes both
  validators, the \<open>INSERT\<close> is issued with it and rejected, and create answers the server
  error with no row written.
\<close>

theorem array_or_infinite_title_is_not_stored:
  "truthy (Arr (replicate 256 Null)) \<and> \<not> is_string (Arr (replicate 256 Null)) \<and>
   sanitizeInput reference (Arr (replicate 256 Null)) = Arr (replicate 256 Null) \<and>
   validateTitle reference (Arr (replicate 256 Null)) =
     Return (Some ''Title is too long (max 255 characters)'') \<and>
   create_notice reference 400
       \<lparr>body_title = Arr (replicate 256 Null), body_content = Str ''c'',
        body_content_delta = Undefined\<rparr> empty_storage
     = (Bad ''Title is too long (max 255 characters)'', empty_storage) \<and>
   truthy (Num PosInf) \<and> \<not> is_string (Num PosInf) \<and>
   sanitizeInput reference (Num PosInf) = Num PosInf \<and>
   validateTitle reference (Num PosInf) = Return None \<and>
   validateContent reference (sanitizeInput reference (Str ''c'')) = Return None \<and>
   create_notice reference 400
       \<lparr>body_title = Num PosInf, body_content = Str ''c'', body_content_delta = Undefined\<rparr>
       empty_storage
     = (ServerError, \<lparr>rows = [], next_id = 1, issued = [Insert (Num PosInf) (Str ''c'') None]\<rparr>)"
proof -
  have s: "sanitizeInput reference (Str ''c'') = Str ''c''"
    by (simp add: sanitizeInput_def reference_xss escapeHtml_def trim_def is_space_def)
  have a: "validateTitle reference (Arr (replicate 256 Null)) =
     Return (Some ''Title is too long (max 255 characters)'')"
    by (simp add: validateTitle_def length_gt_def get_length_def js_gt_def Number_def)
  have i: "validateTitle reference (Num PosInf) = Return None"
    by (simp add: validateTitle_def length_gt_def get_length_def js_gt_def Number_def)
  have ca: "create_notice reference 400
       \<lparr>body_title = Arr (replicate 256 Null), body_content = Str ''c'',
        body_content_delta = Undefined\<rparr> empty_storage
     = (Bad ''Title is too long (max 255 characters)'', empty_storage)"
    by (simp add: create_notice_def checked_fields_def delta_text_absent sanitizeInput_def a)
  have ci: "create_notice reference 400
       \<lparr>body_title = Num PosInf, body_content = Str ''c'', body_content_delta = Undefined\<rparr>
       empty_storage
     = (ServerError, \<lparr>rows = [], next_id = 1, issued = [Insert (Num PosInf) (Str ''c'') None]\<rparr>)"
    by (simp add: create_notice_def checked_fields_def delta_text_absent s i validateContent_Str
        db_insert_def sql_value_def sql_number_def issue_def empty_storage_def
        sanitizeInput_no_string)
  show ?thesis
    using a i ca ci by (simp add: s validateContent_Str sanitizeInput_no_string)
qed

theorem non_string_title_or_content_witness:
  "\<not> is_string (Num (Fin 5)) \<and> truthy (Num (Fin 5)) \<and>
   sanitizeInput reference (Num (Fin 5)) = Num (Fin 5) \<and>
   validateTitle reference (Num (Fin 5)) = Return None \<and>
   validateContent reference (Num (Fin 5)) = Return None \<and>
   validateTitle reference (Arr (replicate 255 Null)) = Return None \<and>
   validateTitle reference (Arr (replicate 256 Null)) =
     Return (Some ''Title is too long (max 255 characters)'') \<and>
   validateContent reference (Arr (replicate 256 Null)) = Return None \<and>
   validateContent reference (Arr (replicate 50001 Null)) =
     Return (Some ''Content is too long (max 50000 characters)'') \<and>
   map_of [(''a'', Null)] ''length'' = None \<and>
   validateTitle reference (Obj [(''a'', Null)]) = Return None \<and>
   validateContent reference (Obj [(''a'', Null)]) = Return None \<and>
   map_of [(''length'', Num (Fin 300))] ''length'' = Some (Num (Fin 300)) \<and>
   Number reference (Num (Fin 300)) = Return (Fin 300) \<and>
   validateTitle reference (Obj [(''length'', Num (Fin 300))]) =
     Return (Some ''Title is too long (max 255 characters)'') \<and>
   validateContent reference (Obj [(''length'', Num (Fin 300))]) = Return None \<and>
   delta_text reference Undefined = Return None \<and>
   xss reference (trim '' c '') = ''c'' \<and>
   create_notice reference 400
       \<lparr>body_title = Num (Fin 5), body_content = Str '' c '', body_content_delta = Undefined\<rparr>
       empty_storage
     = (Ok (PId 1),
        \<lparr>rows = [\<lparr>notice_id = 1, title = Num (Fin 5), content = Str ''c'', content_delta = None,
                   status = Draft, publish_time = None, created_at = 400\<rparr>],
         next_id = 2, issued = [Insert (Num (Fin 5)) (Str ''c'') None]\<rparr>) \<and>
   StringToNumber reference ''2'' = Fin 2 \<and>
   update_notice reference ''2''
       \<lparr>body_title = Num (Fin 5), body_content = Str '' c '', body_content_delta = Undefined\<rparr>
       sample
     = (Ok PTrue,
        \<lparr>rows =
           [\<lparr>notice_id = 1, title = Str ''Opening hours'', content = Str ''<p>9 to 5</p>'',
             content_delta = None, status = Published, publish_time = Some 120,
             created_at = 100\<rparr>,
            \<lparr>notice_id = 2, title = Num (Fin 5), content = Str ''c'',
             content_delta = None, status = Draft, publish_time = None, created_at = 200\<rparr>,
            \<lparr>notice_id = 3, title = Str ''Maintenance'', content = Str ''<p>Sunday</p>'',
             content_delta = None, status = Draft, publish_time = None, created_at = 300\<rparr>],
         next_id = 4, issued = [Update (Num (Fin 5)) (Str ''c'') None (Fin 2)]\<rparr>) \<and>
   truthy (Bool True) \<and>
   create_notice reference 400
       \<lparr>body_title = Str '' c '', body_content = Bool True, body_content_delta = Undefined\<rparr>
       empty_storage
     = (Ok (PId 1),
        \<lparr>rows = [\<lparr>notice_id = 1, title = Str ''c'', content = Bool True, content_delta = None,
                   status = Draft, publish_time = None, created_at = 400\<rparr>],
         next_id = 2, issued = [Insert (Str ''c'') (Bool True) None]\<rparr>) \<and>
   update_notice reference ''2''
       \<lparr>body_title = Str '' c '', body_content = Bool True, body_content_delta = Undefined\<rparr>
       empty_storage
     = (Ok PTrue,
        \<lparr>rows = [], next_id = 1, issued = [Update (Str ''c'') (Bool True) None (Fin 2)]\<rparr>) \<and>
   truthy (Num NegInf) \<and>
   update_notice reference ''2''
       \<lparr>body_title = Str '' c '', body_content = Num NegInf, body_content_delta = Undefined\<rparr>
       sample
     = (ServerError,
        \<lparr>rows = sample_rows, next_id = 4,
         issued = [Update (Str ''c'') (Num NegInf) None (Fin 2)]\<rparr>)"
proof -
  have x: "xss reference (trim '' c '') = ''c''"
    by (simp add: reference_xss escapeHtml_def trim_def is_space_def)
  have k: "StringToNumber reference ''2'' = Fin 2"
    by (simp add: reference_number_examples)
  have d: "delta_text reference Undefined = Return None"
    by (rule delta_text_absent)
  have n: "Number reference (Num (Fin 300)) = Return (Fin 300)"
    by (simp add: Number_def)
  note A = non_string_title_or_content [where E = reference and v = "Num (Fin 5)"
      and x = "Fin 5" and y = True and xs = "replicate 256 Null"
      and kvs = "[(''length'', Num (Fin 300))]" and l = "Num (Fin 300)" and n = "Fin 300"
      and s = "'' c ''" and qd = Undefined and d = None and now = 400 and st = empty_storage
      and id' = "''2''" and k = 2]
  note B = non_string_title_or_content [where E = reference and v = "Num (Fin 5)"
      and x = "Fin 5" and y = True and xs = "replicate 255 Null"
      and kvs = "[(''a'', Null)]" and l = Null and n = NaN
      and s = "'' c ''" and qd = Undefined and d = None and now = 400 and st = sample
      and id' = "''2''" and k = 2]
  note C = non_string_title_or_content [where E = reference and v = "Bool True"
      and x = NaN and y = True and xs = "replicate 50001 Null"
      and kvs = "[]" and l = Null and n = NaN
      and s = "'' c ''" and qd = Undefined and d = None and now = 400 and st = empty_storage
      and id' = "''2''" and k = 2]
  note D = non_string_title_or_content [where E = reference and v = "Num NegInf"
      and x = NegInf and y = True and xs = "[]"
      and kvs = "[]" and l = Null and n = NaN
      and s = "'' c ''" and qd = Undefined and d = None and now = 400 and st = sample
      and id' = "''2''" and k = 2]
  note A1 = A [THEN conjunct1]
  note A2 = A [THEN conjunct2, THEN conjunct1]
  note A3 = A [THEN conjunct2, THEN conjunct2, THEN conjunct1]
  note A4 = A [THEN conjunct2, THEN conjunct2, THEN conjunct2, THEN conjunct1]
  note A6 = A [THEN conjunct2, THEN conjunct2, THEN conjunct2, THEN conjunct2, THEN conjunct2,
      THEN conjunct1]
  note A7 = A [THEN conjunct2, THEN conjunct2, THEN conjunct2, THEN conjunct2, THEN conjunct2,
      THEN conjunct2, THEN conjunct1]
  note B3 = B [THEN conjunct2, THEN conjunct2, THEN conjunct1]
  note B5 = B [THEN conjunct2, THEN conjunct2, THEN conjunct2, THEN conjunct2, THEN conjunct1]
  note B7 = B [THEN conjunct2, THEN conjunct2, THEN conjunct2, THEN conjunct2, THEN conjunct2,
      THEN conjunct2, THEN conjunct1]
  note C4 = C [THEN conjunct2, THEN conjunct2, THEN conjunct2, THEN conjunct1]
  note C8 = C [THEN conjunct2, THEN conjunct2, THEN conjunct2, THEN conjunct2, THEN conjunct2,
      THEN conjunct2, THEN conjunct2]
  note D8 = D [THEN conjunct2, THEN conjunct2, THEN conjunct2, THEN conjunct2, THEN conjunct2,
      THEN conjunct2, THEN conjunct2]
  have a1: "sanitizeInput reference (Num (Fin 5)) = Num (Fin 5)"
    using A1 by simp
  have a2: "validateTitle reference (Num (Fin 5)) = Return None \<and>
            validateContent reference (Num (Fin 5)) = Return None"
    using A2 by simp
  have b3: "validateTitle reference (Arr (replicate 255 Null)) = Return None"
    using B3 by simp
  have a3: "validateTitle reference (Arr (replicate 256 Null)) =
     Return (Some ''Title is too long (max 255 characters)'')"
    using A3 by simp
  have a4: "validateContent reference (Arr (replicate 256 Null)) = Return None"
    using A4 by simp
  have c4: "validateContent reference (Arr (replicate 50001 Null)) =
     Return (Some ''Content is too long (max 50000 characters)'')"
    using C4 by simp
  have b5: "validateTitle reference (Obj [(''a'', Null)]) = Return None \<and>
            validateContent reference (Obj [(''a'', Null)]) = Return None"
    using B5 by simp
  have a6: "validateTitle reference (Obj [(''length'', Num (Fin 300))]) =
              Return (Some ''Title is too long (max 255 characters)'') \<and>
            validateContent reference (Obj [(''length'', Num (Fin 300))]) = Return None"
    using A6 n by simp
  have a7: "create_notice reference 400
       \<lparr>body_title = Num (Fin 5), body_content = Str '' c '', body_content_delta = Undefined\<rparr>
       empty_storage
     = (Ok (PId 1),
        \<lparr>rows = [\<lparr>notice_id = 1, title = Num (Fin 5), content = Str ''c'', content_delta = None,
                   status = Draft, publish_time = None, created_at = 400\<rparr>],
         next_id = 2, issued = [Insert (Num (Fin 5)) (Str ''c'') None]\<rparr>)"
    using A7 d by (simp add: x empty_storage_def issue_def)
  have b7: "update_notice reference ''2''
       \<lparr>body_title = Num (Fin 5), body_content = Str '' c '', body_content_delta = Undefined\<rparr>
       sample
     = (Ok PTrue,
        \<lparr>rows =
           [\<lparr>notice_id = 1, title = Str ''Opening hours'', content = Str ''<p>9 to 5</p>'',
             content_delta = None, status = Published, publish_time = Some 120,
             created_at = 100\<rparr>,
            \<lparr>notice_id = 2, title = Num (Fin 5), content = Str ''c'',
             content_delta = None, status = Draft, publish_time = None, created_at = 200\<rparr>,
            \<lparr>notice_id = 3, title = Str ''Maintenance'', content = Str ''<p>Sunday</p>'',
             content_delta = None, status = Draft, publish_time = None, created_at = 300\<rparr>],
         next_id = 4, issued = [Update (Num (Fin 5)) (Str ''c'') None (Fin 2)]\<rparr>)"
    using B7 d k by (simp add: x sample_def sample_rows_def issue_def has_id_def)
  have c8: "create_notice reference 400
       \<lparr>body_title = Str '' c '', body_content = Bool True, body_content_delta = Undefined\<rparr>
       empty_storage
     = (Ok (PId 1),
        \<lparr>rows = [\<lparr>notice_id = 1, title = Str ''c'', content = Bool True, content_delta = None,
                   status = Draft, publish_time = None, created_at = 400\<rparr>],
         next_id = 2, issued = [Insert (Str ''c'') (Bool True) None]\<rparr>) \<and>
   update_notice reference ''2''
       \<lparr>body_title = Str '' c '', body_content = Bool True, body_content_delta = Undefined\<rparr>
       empty_storage
     = (Ok PTrue,
        \<lparr>rows = [], next_id = 1, issued = [Update (Str ''c'') (Bool True) None (Fin 2)]\<rparr>)"
    using C8 d k by (simp add: x empty_storage_def issue_def)
  have d8: "update_notice reference ''2''
       \<lparr>body_title = Str '' c '', body_content = Num NegInf, body_content_delta = Undefined\<rparr>
       sample
     = (ServerError,
        \<lparr>rows = sample_rows, next_id = 4,
         issued = [Update (Str ''c'') (Num NegInf) None (Fin 2)]\<rparr>)"
    using D8 d k by (simp add: x sample_def issue_def)
  show ?thesis
    using a1 a2 b3 a3 a4 c4 b5 a6 a7 b7 c8 d8 x k d n
    by (intro conjI) simp_all
qed

section \<open>Facts about the batch delete\<close>

lemma map_Number_Num: "map_Number E (map Num ns) = Return ns"
  by (induction ns) (simp_all add: Number_def)

lemma those_sql_number_Fin: "those (map sql_number (map Fin xs)) = Some xs"
  by (induction xs) (simp_all add: sql_number_def)

text \<open>
  C5, as amended: an empty array is answered \<open>ids required\<close>. For a non-empty array
  whose entries all convert to numbers, with \<open>safeIds\<close> the conversions greater than 0:
  if \<open>safeIds\<close> is empty the answer is \<open>ids invalid\<close>; if it has more than 100 entries
  the answer is \<open>Too many IDs in batch operation (max 100)\<close>; in both cases the storage
  is returned as it was. If it has between 1 and 100 entries, all of them finite, the
  \<open>DELETE\<close> is issued with all of them, the rows with these ids are gone and the answer
  is success.
\<close>

theorem batch_delete_checks:
  assumes "ids \<noteq> []" and "map_Number E ids = Return ns"
    and "safeIds = filter (\<lambda>n. num_lt (Fin 0) n) ns"
  shows "batch_delete E (Arr []) st = (Bad ''ids required'', st) \<and>
         (safeIds = [] \<longrightarrow> batch_delete E (Arr ids) st = (Bad ''ids invalid'', st)) \<and>
         (100 < length safeIds \<longrightarrow>
            batch_delete E (Arr ids) st = (Bad ''Too many IDs in batch operation (max 100)'', st)) \<and>
         (safeIds \<noteq> [] \<and> length safeIds \<le> 100 \<and> those (map sql_number safeIds) = Some xs \<longrightarrow>
            batch_delete E (Arr ids) st =
              (Ok PTrue,
               issue (DeleteIn safeIds)
                 (st\<lparr>rows := filter (\<lambda>r. real (notice_id r) \<notin> set xs) (rows st)\<rparr>)))"
  using assms by (auto simp: batch_delete_def Let_def db_delete_in_def)

text \<open>
  C5 as stated fails at the empty array: its filtered list is empty, and the answer is
  \<open>ids required\<close>, not \<open>ids invalid\<close>.
\<close>

theorem empty_id_list_is_required:
  "map_Number reference [] = Return [] \<and>
   filter (\<lambda>n. num_lt (Fin 0) n) [] = [] \<and>
   batch_delete reference (Arr []) sample = (Bad ''ids required'', sample)"
  by (simp add: batch_delete_def)

theorem batch_delete_checks_witness:
  "map_Number reference [Str ''abc'', Null, Num (Fin (- 3))] = Return [NaN, Fin 0, Fin (- 3)] \<and>
   filter (\<lambda>n. num_lt (Fin 0) n) [NaN, Fin 0, Fin (- 3)] = [] \<and>
   batch_delete reference (Arr [Str ''abc'', Null, Num (Fin (- 3))]) sample = (Bad ''ids invalid'', sample) \<and>
   length (filter (\<lambda>n. num_lt (Fin 0) n) (map (\<lambda>i. Fin (real i)) [1..<102])) = 101 \<and>
   batch_delete reference (Arr (map Num (map (\<lambda>i. Fin (real i)) [1..<102]))) sample
     = (Bad ''Too many IDs in batch operation (max 100)'', sample) \<and>
   length (filter (\<lambda>n. num_lt (Fin 0) n) (map (\<lambda>i. Fin (real i)) [1..<101])) = 100 \<and>
   batch_delete reference (Arr (map Num (map (\<lambda>i. Fin (real i)) [1..<101]))) sample
     = (Ok PTrue,
        \<lparr>rows = [], next_id = 4, issued = [DeleteIn (map (\<lambda>i. Fin (real i)) [1..<101])]\<rparr>)"
proof -
  let ?bad = "[Str ''abc'', Null, Num (Fin (- 3))]"
  have b1: "?bad \<noteq> []" by simp
  have b2: "map_Number reference ?bad = Return [NaN, Fin 0, Fin (- 3)]"
    by (simp add: Number_def reference_number_examples)
  have b3: "[] = filter (\<lambda>n. num_lt (Fin 0) n) [NaN, Fin 0, Fin (- 3)]" by simp
  note bad = batch_delete_checks [where st = sample, OF b1 b2 b3]
  have pos: "filter (\<lambda>n. num_lt (Fin 0) n) (map (\<lambda>i. Fin (real i)) [1..<m]) = map (\<lambda>i. Fin (real i)) [1..<m]" for m
    by (simp add: filter_map filter_id_conv)
  let ?many = "map (\<lambda>i. Fin (real i)) [1..<102]"
  have m1: "map Num ?many \<noteq> []" by simp
  have m3: "?many = filter (\<lambda>n. num_lt (Fin 0) n) ?many" by (simp only: pos)
  note many = batch_delete_checks [where st = sample, OF m1 map_Number_Num m3]
  let ?full = "map (\<lambda>i. Fin (real i)) [1..<101]"
  have f1: "map Num ?full \<noteq> []" by simp
  have f3: "?full = filter (\<lambda>n. num_lt (Fin 0) n) ?full" by (simp only: pos)
  have f4: "those (map sql_number ?full) = Some (map real [1..<101])"
    using those_sql_number_Fin [of "map real [1..<101]"] by (simp add: comp_def)
  note full = batch_delete_checks [where st = sample and xs = "map real [1..<101]", OF f1 map_Number_Num f3]
  have gone: "filter (\<lambda>r. real (notice_id r) \<notin> set (map real [1..<101])) (rows sample) = []"
    by (simp add: sample_def sample_rows_def image_iff)
  from bad many full show ?thesis
    using b2 f4 gone by (simp add: pos issue_def sample_def)
qed

section \<open>Facts about the storage\<close>

lemma has_id_real: "has_id (real n) r = (notice_id r = n)"
  by (simp add: has_id_def)

lemma sql_count_nat: "sql_count (Fin (real n)) = Some n"
  by (simp add: sql_count_def)

lemma sql_number_Fin: "sql_number (Fin x) = Some x"
  by (simp add: sql_number_def)

lemma rows_issue: "rows (issue q st) = rows st"
  by (simp add: issue_def)

lemma next_id_issue: "next_id (issue q st) = next_id st"
  by (simp add: issue_def)

lemma ordered_desc:
  "sorted_wrt (\<lambda>a b. created_at b \<le> created_at a) (order_by_created_desc rs)"
proof -
  have "sorted (map created_at (sort_key created_at rs))" by simp
  then have "sorted_wrt (\<lambda>a b. created_at a \<le> created_at b) (sort_key created_at rs)"
    by (simp add: sorted_map)
  then show ?thesis
    by (simp add: order_by_created_desc_def sorted_wrt_rev)
qed

lemma mset_ordered: "mset (order_by_created_desc rs) = mset rs"
  by (simp add: order_by_created_desc_def)

lemma page_offset:
  assumes "1 \<le> p"
  shows "num_mul (num_sub (Fin (real p)) (Fin 1)) (Fin (real s)) = Fin (real ((p - 1) * s))"
  using assms by (simp add: of_nat_diff)

text \<open>
  The bounds of the page: a page or a size that is at most 0, and a size above 100, are
  answered \<open>page/size invalid\<close> with the storage untouched; the size 101 is
  rejected and the size 100 is accepted.
\<close>

lemma page_size_out_of_bounds:
  assumes "Number E (if truthy qpage then qpage else Num (Fin 1)) = Return page"
    and "Number E (if truthy qsize then qsize else Num (Fin 10)) = Return size'"
    and "query_status qstatus = Return w"
    and "num_le page (Fin 0) \<or> num_le size' (Fin 0) \<or> num_lt (Fin 100) size'"
  shows "list_notices E qpage qsize qstatus st = (Bad ''page/size invalid'', st)"
  using assms(4) unfolding list_notices_def assms(1,2,3) completion.case by simp

lemma size_101_rejected:
  "list_notices reference Undefined (Str ''101'') Undefined sample = (Bad ''page/size invalid'', sample)"
  by (simp add: list_notices_def Number_def reference_number_examples query_status_def trim_def)

lemma size_100_accepted:
  "fst (list_notices reference Undefined (Str ''100'') Undefined sample) =
     Ok (PList (map list_columns (rev sample_rows)) 3 (Fin 1) (Fin 100))"
  by (simp add: list_notices_def Number_def reference_number_examples query_status_def trim_def
      db_select_page_def db_count_def sql_count_def sample_def sample_rows_def
      order_by_created_desc_def where_status_def rows_issue)

section \<open>The list operation\<close>

text \<open>
  The text of a status determines the status, and is never empty; so a filter that trims
  to \<open>draft\<close> or \<open>published\<close> selects the rows of that status, and a filter that is absent
  or blank selects all rows.
\<close>

lemma status_text_inj: "(status_text a = status_text b) = (a = b)"
  by (cases a; cases b) simp_all

lemma status_text_not_empty: "status_text x \<noteq> []"
  by (cases x) simp_all

lemma trim_Nil: "trim [] = []"
  by (simp add: trim_def)

lemma query_status_requested:
  assumes "case f of
             None \<Rightarrow> \<not> truthy qstatus \<or> (\<exists>t. qstatus = Str t \<and> trim t = [])
           | Some x \<Rightarrow> (\<exists>t. qstatus = Str t \<and> trim t = status_text x)"
  shows "query_status qstatus = Return (case f of None \<Rightarrow> [] | Some x \<Rightarrow> status_text x)"
proof (cases f)
  case None
  then have "\<not> truthy qstatus \<or> (\<exists>t. qstatus = Str t \<and> trim t = [])"
    using assms by simp
  then show ?thesis
    by (auto simp: None query_status_def trim_Nil)
next
  case (Some x)
  then obtain t where t: "qstatus = Str t" "trim t = status_text x"
    using assms by auto
  then have "t \<noteq> []"
    using status_text_not_empty [of x] trim_Nil by auto
  then show ?thesis
    by (simp add: Some t query_status_def)
qed

lemma where_status_requested:
  "where_status (map_option status_text f) r = (case f of None \<Rightarrow> True | Some x \<Rightarrow> status r = x)"
  by (cases f) (simp_all add: where_status_def status_text_inj)

text \<open>
  C6, as amended: let the page and the size of a list request convert to the positive
  integers \<open>p\<close> and \<open>s\<close> with \<open>s \<le> 100\<close> (the bound on \<open>p * s\<close> keeps the offset among the
  integers that the runtime's arithmetic computes exactly), and let the status of the
  query be absent or blank (\<open>f = None\<close>) or trim to the text of the status \<open>x\<close>
  (\<open>f = Some x\<close>). The matching rows are all rows in the first case and the rows of status
  \<open>x\<close> in the second. Then the request succeeds. Its list is taken from the matching rows
  in descending order of their creation time: the \<open>s\<close> rows from offset \<open>(p - 1) * s\<close> on,
  with the columns of the \<open>SELECT\<close>. Its total is the number of all matching rows. The two
  statements issued are the page query and the count, both with the text of \<open>x\<close> as their
  only filter, or with none.
\<close>

theorem list_notices_page:
  assumes "Number E (if truthy qpage then qpage else Num (Fin 1)) = Return (Fin (real p))"
    and "Number E (if truthy qsize then qsize else Num (Fin 10)) = Return (Fin (real s))"
    and "case f of
           None \<Rightarrow> \<not> truthy qstatus \<or> (\<exists>t. qstatus = Str t \<and> trim t = [])
         | Some x \<Rightarrow> (\<exists>t. qstatus = Str t \<and> trim t = status_text x)"
    and "1 \<le> p" and "1 \<le> s" and "s \<le> 100" and "p * s \<le> 2 ^ 53"
    and "matching = filter (\<lambda>r. case f of None \<Rightarrow> True | Some x \<Rightarrow> status r = x) (rows st)"
  shows "list_notices E qpage qsize qstatus st =
           (Ok (PList (map list_columns (take s (drop ((p - 1) * s) (order_by_created_desc matching))))
                  (length matching) (Fin (real p)) (Fin (real s))),
            issue (SelectCount (map_option status_text f))
              (issue (SelectPage (map_option status_text f) (Fin (real s))
                        (Fin (real ((p - 1) * s)))) st)) \<and>
         sorted_wrt (\<lambda>a b. created_at b \<le> created_at a) (order_by_created_desc matching) \<and>
         mset (order_by_created_desc matching) = mset matching"
proof -
  define off where "off = (p - 1) * s"
  define w where "w = (case f of None \<Rightarrow> [] | Some x \<Rightarrow> status_text x)"
  define args where "args = map_option status_text f"
  have q: "query_status qstatus = Return w"
    unfolding w_def by (rule query_status_requested [OF assms(3)])
  have po: "num_mul (num_sub (Fin (real p)) (Fin 1)) (Fin (real s)) = Fin (real off)"
    unfolding off_def by (rule page_offset [OF assms(4)])
  have v: "\<not> (num_le (Fin (real p)) (Fin 0) \<or> num_le (Fin (real s)) (Fin 0) \<or> num_lt (Fin 100) (Fin (real s)))"
    using assms(4,5,6) by simp
  have wv: "\<not> (w \<noteq> [] \<and> w \<notin> set [''draft'', ''published''])"
    unfolding w_def by (cases f; cases "the f") auto
  have a: "(if w \<noteq> [] then Some w else None) = args"
    unfolding w_def args_def using status_text_not_empty by (cases f) simp_all
  have m: "filter (where_status args) (rows st) = matching"
    unfolding args_def assms(8) where_status_requested ..
  have sel: "db_select_page args (Fin (real s)) (Fin (real off)) st =
             (Return (map list_columns (take s (drop off (order_by_created_desc matching)))),
              issue (SelectPage args (Fin (real s)) (Fin (real off))) st)"
    by (simp add: db_select_page_def sql_count_nat m)
  have cnt: "db_count args (issue q st) = (Return (length matching), issue (SelectCount args) (issue q st))" for q
    by (simp add: db_count_def rows_issue m)
  have "list_notices E qpage qsize qstatus st =
           (Ok (PList (map list_columns (take s (drop off (order_by_created_desc matching))))
                  (length matching) (Fin (real p)) (Fin (real s))),
            issue (SelectCount args) (issue (SelectPage args (Fin (real s)) (Fin (real off))) st))"
    unfolding list_notices_def assms(1,2) q completion.case po Let_def a
    using v wv by (simp add: sel cnt)
  then show ?thesis
    unfolding off_def args_def using ordered_desc mset_ordered by blast
qed

text \<open>
  C6 as stated fails for a size or a page that passes the bounds of the handler and is
  no integer, or is infinite: the size \<open>2.5\<close> is greater than 0 and at most 100, the page
  \<open>Infinity\<close> is greater than 0, and the handler binds \<open>LIMIT 2.5\<close>, or \<open>OFFSET Infinity\<close>,
  which the storage rejects; the answer is the server error and no list.
\<close>

theorem fractional_size_is_server_error:
  "Number reference (Str ''2.5'') = Return (Fin 2.5) \<and>
   num_lt (Fin 0) (Fin 2.5) \<and> num_le (Fin 2.5) (Fin 100) \<and>
   list_notices reference Undefined (Str ''2.5'') Undefined sample =
     (ServerError, issue (SelectPage None (Fin 2.5) (Fin 0)) sample) \<and>
   Number reference (Str ''Infinity'') = Return PosInf \<and>
   num_lt (Fin 0) PosInf \<and>
   list_notices reference (Str ''Infinity'') Undefined Undefined sample =
     (ServerError, issue (SelectPage None (Fin 10) PosInf) sample)"
proof -
  have n: "StringToNumber reference ''2.5'' = Fin 2.5"
    by (simp add: reference_defs)
  have i: "StringToNumber reference ''Infinity'' = PosInf"
    by (simp add: reference_defs)
  show ?thesis
    by (simp add: list_notices_def Number_def n i query_status_def trim_def
        db_select_page_def sql_count_def)
qed

theorem list_notices_page_witness:
  "Number reference (Str ''2'') = Return (Fin (real 2)) \<and>
   trim '' draft '' = status_text Draft \<and>
   list_notices reference (Str ''2'') (Str ''1'') (Str '' draft '') sample =
     (Ok (PList [\<lparr>row_id = 2, row_title = Str ''Holiday'', row_content = Str ''<p>Closed</p>'',
                  row_status = Draft, row_publish_time = None, row_created_at = 200\<rparr>]
            2 (Fin 2) (Fin 1)),
      \<lparr>rows = sample_rows, next_id = 4,
       issued = [SelectPage (Some ''draft'') (Fin 1) (Fin 1), SelectCount (Some ''draft'')]\<rparr>) \<and>
   list_notices reference Undefined Undefined Undefined sample =
     (Ok (PList [\<lparr>row_id = 3, row_title = Str ''Maintenance'', row_content = Str ''<p>Sunday</p>'',
                  row_status = Draft, row_publish_time = None, row_created_at = 300\<rparr>,
                 \<lparr>row_id = 2, row_title = Str ''Holiday'', row_content = Str ''<p>Closed</p>'',
                  row_status = Draft, row_publish_time = None, row_created_at = 200\<rparr>,
                 \<lparr>row_id = 1, row_title = Str ''Opening hours'', row_content = Str ''<p>9 to 5</p>'',
                  row_status = Published, row_publish_time = Some 120, row_created_at = 100\<rparr>]
            3 (Fin 1) (Fin 10)),
      \<lparr>rows = sample_rows, next_id = 4,
       issued = [SelectPage None (Fin 10) (Fin 0), SelectCount None]\<rparr>)"
proof -
  let ?drafts = "[\<lparr>notice_id = 2, title = Str ''Holiday'', content = Str ''<p>Closed</p>'',
       content_delta = Some ''{}'', status = Draft, publish_time = None, created_at = 200\<rparr>,
      \<lparr>notice_id = 3, title = Str ''Maintenance'', content = Str ''<p>Sunday</p>'',
       content_delta = None, status = Draft, publish_time = None, created_at = 300\<rparr>]"
  have n2: "Number reference (if truthy (Str ''2'') then Str ''2'' else Num (Fin 1)) = Return (Fin (real 2))"
    by (simp add: Number_def reference_number_examples)
  have n1: "Number reference (if truthy (Str ''1'') then Str ''1'' else Num (Fin 10)) = Return (Fin (real 1))"
    by (simp add: Number_def reference_defs)
  have d1: "Number reference (if truthy Undefined then Undefined else Num (Fin 1)) = Return (Fin (real 1))"
    by (simp add: Number_def)
  have d10: "Number reference (if truthy Undefined then Undefined else Num (Fin 10)) = Return (Fin (real 10))"
    by (simp add: Number_def)
  have t: "trim '' draft '' = status_text Draft"
    by (simp add: trim_def is_space_def)
  have f1: "case Some Draft of
           None \<Rightarrow> \<not> truthy (Str '' draft '') \<or> (\<exists>t. Str '' draft '' = Str t \<and> trim t = [])
         | Some x \<Rightarrow> (\<exists>t. Str '' draft '' = Str t \<and> trim t = status_text x)"
    using t by simp
  have f0: "case None of
           None \<Rightarrow> \<not> truthy Undefined \<or> (\<exists>t. Undefined = Str t \<and> trim t = [])
         | Some (x::status) \<Rightarrow> (\<exists>t. Undefined = Str t \<and> trim t = status_text x)"
    by simp
  have m1: "?drafts = filter (\<lambda>r. case Some Draft of None \<Rightarrow> True | Some x \<Rightarrow> status r = x) (rows sample)"
    by (simp add: sample_def sample_rows_def)
  have m0: "sample_rows = filter (\<lambda>r. case None of None \<Rightarrow> True | Some (x::status) \<Rightarrow> status r = x) (rows sample)"
    by (simp add: sample_def)
  have o1: "order_by_created_desc ?drafts = rev ?drafts"
    by (simp add: order_by_created_desc_def)
  have o0: "order_by_created_desc sample_rows = rev sample_rows"
    by (simp add: order_by_created_desc_def sample_rows_def)
  note T1 = list_notices_page [where p = 2 and s = 1 and f = "Some Draft" and st = sample,
      OF n2 n1 f1 _ _ _ _ m1, THEN conjunct1, unfolded o1]
  note T0 = list_notices_page [where p = 1 and s = 10 and f = None and st = sample,
      OF d1 d10 f0 _ _ _ _ m0, THEN conjunct1, unfolded o0]
  have a1: "list_notices reference (Str ''2'') (Str ''1'') (Str '' draft '') sample =
     (Ok (PList [\<lparr>row_id = 2, row_title = Str ''Holiday'', row_content = Str ''<p>Closed</p>'',
                  row_status = Draft, row_publish_time = None, row_created_at = 200\<rparr>]
            2 (Fin 2) (Fin 1)),
      \<lparr>rows = sample_rows, next_id = 4,
       issued = [SelectPage (Some ''draft'') (Fin 1) (Fin 1), SelectCount (Some ''draft'')]\<rparr>)"
    using T1 by (simp add: list_columns_def issue_def sample_def)
  have a0: "list_notices reference Undefined Undefined Undefined sample =
     (Ok (PList [\<lparr>row_id = 3, row_title = Str ''Maintenance'', row_content = Str ''<p>Sunday</p>'',
                  row_status = Draft, row_publish_time = None, row_created_at = 300\<rparr>,
                 \<lparr>row_id = 2, row_title = Str ''Holiday'', row_content = Str ''<p>Closed</p>'',
                  row_status = Draft, row_publish_time = None, row_created_at = 200\<rparr>,
                 \<lparr>row_id = 1, row_title = Str ''Opening hours'', row_content = Str ''<p>9 to 5</p>'',
                  row_status = Published, row_publish_time = Some 120, row_created_at = 100\<rparr>]
            3 (Fin 1) (Fin 10)),
      \<lparr>rows = sample_rows, next_id = 4,
       issued = [SelectPage None (Fin 10) (Fin 0), SelectCount None]\<rparr>)"
    using T0 by (simp add: list_columns_def issue_def sample_def sample_rows_def)
  have k: "Number reference (Str ''2'') = Return (Fin (real 2))"
    using n2 by simp
  show ?thesis
    using k t a1 a0 by (intro conjI)
qed

section \<open>Facts about publish and update\<close>

lemma no_unpublishI:
  assumes "\<And>r'. r' \<in> set (rows st') \<Longrightarrow>
             status r' = Published \<or>
             (\<exists>r \<in> set (rows st). notice_id r = notice_id r' \<and> status r = Draft) \<or>
             notice_id r' = next_id st"
  shows "no_unpublish st st'"
  using assms by (simp add: no_unpublish_def list_all_iff list_ex_iff)

lemma draft_or_published: "status r = Published \<or> status r = Draft"
  by (cases "status r") simp_all

lemma no_unpublish_subset:
  assumes "set (rows st') \<subseteq> set (rows st)"
  shows "no_unpublish st st'"
proof (rule no_unpublishI)
  fix r' assume "r' \<in> set (rows st')"
  then have "r' \<in> set (rows st)" using assms by blast
  then show "status r' = Published \<or>
        (\<exists>r \<in> set (rows st). notice_id r = notice_id r' \<and> status r = Draft) \<or>
        notice_id r' = next_id st"
    using draft_or_published [of r'] by blast
qed

lemma no_unpublish_same: "rows st' = rows st \<Longrightarrow> no_unpublish st st'"
  by (rule no_unpublish_subset) simp

lemma no_unpublish_filter: "rows st' = filter P (rows st) \<Longrightarrow> no_unpublish st st'"
  by (rule no_unpublish_subset) simp

lemma no_unpublish_map:
  assumes "rows st' = map f (rows st)"
    and "\<And>r. notice_id (f r) = notice_id r \<and> (status (f r) = status r \<or> status (f r) = Published)"
  shows "no_unpublish st st'"
proof (rule no_unpublishI)
  fix r' assume "r' \<in> set (rows st')"
  then obtain r where r: "r \<in> set (rows st)" "r' = f r" using assms(1) by auto
  show "status r' = Published \<or>
        (\<exists>r \<in> set (rows st). notice_id r = notice_id r' \<and> status r = Draft) \<or>
        notice_id r' = next_id st"
    using r assms(2) [of r] draft_or_published [of r] by metis
qed

lemma no_unpublish_insert:
  assumes "rows st' = rows st @ [r]" and "notice_id r = next_id st"
  shows "no_unpublish st st'"
proof (rule no_unpublishI)
  fix r' assume "r' \<in> set (rows st')"
  then have "r' \<in> set (rows st) \<or> r' = r" using assms(1) by auto
  then show "status r' = Published \<or>
        (\<exists>r \<in> set (rows st). notice_id r = notice_id r' \<and> status r = Draft) \<or>
        notice_id r' = next_id st"
    using draft_or_published [of r'] assms(2) by blast
qed

lemma rows_db_select_page: "rows (snd (db_select_page w l off st)) = rows st"
  by (simp add: db_select_page_def rows_issue split: option.split)

lemma rows_db_count: "rows (snd (db_count w st)) = rows st"
  by (simp add: db_count_def rows_issue)

lemma rows_db_select_by_id: "rows (snd (db_select_by_id n st)) = rows st"
  by (simp add: db_select_by_id_def rows_issue split: option.split)

lemma snd_case_completion:
  "snd (case p of (Throw, st1) \<Rightarrow> (a, st1) | (Return x, st1) \<Rightarrow> (g x, st1)) = snd p"
  by (cases p) (auto split: completion.splits)

lemma rows_list_notices: "rows (snd (list_notices E qpage qsize qstatus st)) = rows st"
proof -
  have c: "rows (snd (case db_select_page w l off st of
              (Throw, st1) \<Rightarrow> (ServerError, st1)
            | (Return rows', st1) \<Rightarrow>
                (case db_count w st1 of
                   (Throw, st2) \<Rightarrow> (ServerError, st2)
                 | (Return total', st2) \<Rightarrow> (Ok (PList rows' total' page l), st2)))) = rows st"
    for w l off page
  proof (cases "db_select_page w l off st")
    case (Pair x st1)
    have "rows st1 = rows st" using rows_db_select_page [of w l off st] Pair by simp
    then show ?thesis
      by (cases x) (simp_all add: Pair snd_case_completion rows_db_count)
  qed
  show ?thesis
  proof (cases "Number E (if truthy qpage then qpage else Num (Fin 1))")
    case Throw
    then show ?thesis by (simp add: list_notices_def)
  next
    case page: (Return page)
    show ?thesis
    proof (cases "Number E (if truthy qsize then qsize else Num (Fin 10))")
      case Throw
      then show ?thesis by (simp add: list_notices_def page)
    next
      case size: (Return l)
      show ?thesis
      proof (cases "query_status qstatus")
        case Throw
        then show ?thesis by (simp add: list_notices_def page size)
      next
        case (Return w)
        show ?thesis
          unfolding list_notices_def page size Return completion.case Let_def
          by (simp add: c)
      qed
    qed
  qed
qed

lemma no_unpublish_list: "no_unpublish st (snd (list_notices E qpage qsize qstatus st))"
  by (rule no_unpublish_same) (rule rows_list_notices)

lemma no_unpublish_get: "no_unpublish st (snd (get_notice E id' st))"
proof (rule no_unpublish_same)
  show "rows (snd (get_notice E id' st)) = rows st"
  proof (cases "db_select_by_id (StringToNumber E id') st")
    case (Pair x st1)
    have "rows st1 = rows st" using rows_db_select_by_id [of "StringToNumber E id'" st] Pair by simp
    then show ?thesis
      by (simp add: get_notice_def Pair split: option.split completion.split list.split)
  qed
qed

lemma no_unpublish_create: "no_unpublish st (snd (create_notice E now b st))"
proof (cases "checked_fields E b")
  case (Inl a)
  then show ?thesis by (simp add: create_notice_def no_unpublish_same)
next
  case (Inr x)
  obtain t c d where x: "x = (t, c, d)" by (cases x) auto
  show ?thesis
  proof (cases "sql_value t \<and> sql_value c")
    case True
    show ?thesis
      by (rule no_unpublish_insert [where r = "\<lparr>notice_id = next_id st, title = t, content = c,
            content_delta = d, status = Draft, publish_time = None, created_at = now\<rparr>"])
         (simp_all add: create_notice_def Inr x db_insert_def True rows_issue)
  next
    case False
    then have "db_insert t c d now st = (Throw, issue (Insert t c d) st)"
      by (simp add: db_insert_def)
    then show ?thesis
      by (simp add: create_notice_def Inr x rows_issue no_unpublish_same)
  qed
qed

lemma no_unpublish_db_update: "no_unpublish st (snd (db_update t c d n st))"
proof (cases "sql_number n")
  case None
  then show ?thesis by (simp add: db_update_def rows_issue no_unpublish_same)
next
  case (Some x)
  show ?thesis
  proof (cases "sql_value t \<and> sql_value c")
    case True
    show ?thesis
      by (rule no_unpublish_map [where f = "\<lambda>r. if has_id x r
            then r\<lparr>title := t, content := c, content_delta := d\<rparr> else r"])
         (simp_all add: db_update_def Some True rows_issue)
  next
    case False
    then have "db_update t c d n st = (Throw, issue (Update t c d n) st)"
      by (simp add: db_update_def Some)
    then show ?thesis
      by (simp add: rows_issue no_unpublish_same)
  qed
qed

lemma no_unpublish_db_publish: "no_unpublish st (snd (db_publish n now st))"
proof (cases "sql_number n")
  case None
  then show ?thesis by (simp add: db_publish_def rows_issue no_unpublish_same)
next
  case (Some x)
  show ?thesis
    by (rule no_unpublish_map [where f = "\<lambda>r. if has_id x r
          then r\<lparr>status := Published, publish_time := Some now\<rparr> else r"])
       (simp_all add: db_publish_def Some rows_issue)
qed

lemma no_unpublish_db_delete: "no_unpublish st (snd (db_delete n st))"
proof (cases "sql_number n")
  case None
  then show ?thesis by (simp add: db_delete_def rows_issue no_unpublish_same)
next
  case (Some x)
  show ?thesis
    by (rule no_unpublish_filter [where P = "\<lambda>r. \<not> has_id x r"])
       (simp add: db_delete_def Some rows_issue)
qed

lemma no_unpublish_db_delete_in: "no_unpublish st (snd (db_delete_in ns st))"
proof (cases "those (map sql_number ns)")
  case None
  then show ?thesis by (simp add: db_delete_in_def rows_issue no_unpublish_same)
next
  case (Some xs)
  show ?thesis
    by (rule no_unpublish_filter [where P = "\<lambda>r. real (notice_id r) \<notin> set xs"])
       (simp add: db_delete_in_def Some rows_issue)
qed


lemma no_unpublish_update: "no_unpublish st (snd (update_notice E id' b st))"
proof (cases "validateId E id'")
  case (Some e)
  then show ?thesis by (simp add: update_notice_def no_unpublish_same)
next
  case None
  show ?thesis
  proof (cases "checked_fields E b")
    case (Inl a)
    then show ?thesis by (simp add: update_notice_def None no_unpublish_same)
  next
    case (Inr x)
    obtain t c d where x: "x = (t, c, d)" by (cases x) auto
    show ?thesis
      by (simp add: update_notice_def None Inr x snd_case_completion no_unpublish_db_update)
  qed
qed

lemma no_unpublish_publish: "no_unpublish st (snd (publish_notice E now id' st))"
  by (cases "validateId E id'")
     (simp_all add: publish_notice_def no_unpublish_same snd_case_completion no_unpublish_db_publish)

lemma no_unpublish_delete: "no_unpublish st (snd (delete_notice E id' st))"
  by (cases "validateId E id'")
     (simp_all add: delete_notice_def no_unpublish_same snd_case_completion no_unpublish_db_delete)

lemma no_unpublish_batch: "no_unpublish st (snd (batch_delete E ids st))"
proof -
  have a: "no_unpublish st (snd (case map_Number E xs of
                Throw \<Rightarrow> (ServerError, st)
              | Return ns \<Rightarrow>
                  (let safeIds = filter (\<lambda>n. num_lt (Fin 0) n) ns
                   in if safeIds = [] then (Bad ''ids invalid'', st)
                      else if length safeIds > 100
                      then (Bad ''Too many IDs in batch operation (max 100)'', st)
                      else case db_delete_in safeIds st of
                             (Throw, st1) \<Rightarrow> (ServerError, st1)
                           | (Return _, st1) \<Rightarrow> (Ok PTrue, st1))))" for xs
    by (cases "map_Number E xs")
       (simp_all add: Let_def no_unpublish_same snd_case_completion no_unpublish_db_delete_in)
  show ?thesis
    unfolding batch_delete_def
    by (cases "if truthy ids then ids else Arr []") (simp_all add: no_unpublish_same a)
qed

lemma no_unpublish_api: "no_unpublish st (snd (api E now req st))"
  by (cases req)
     (simp_all add: no_unpublish_list no_unpublish_get no_unpublish_create no_unpublish_update
        no_unpublish_publish no_unpublish_delete no_unpublish_batch)

lemma publish_valid:
  assumes "StringToNumber E id' = Fin x" and "0 < x"
  shows "publish_notice E now id' st =
           (Ok PTrue,
            issue (SetPublished (Fin x))
              (st\<lparr>rows := map (\<lambda>r. if has_id x r
                                    then r\<lparr>status := Published, publish_time := Some now\<rparr>
                                    else r) (rows st)\<rparr>))"
proof -
  have "validateId E id' = None"
    using assms by (simp add: validateId_valid)
  then show ?thesis
    by (simp add: publish_notice_def assms(1) db_publish_def sql_number_Fin)
qed

text \<open>
  C7: let the id of a publish request denote a positive finite number \<open>x\<close>. The request
  succeeds, and afterwards every notice whose id is \<open>x\<close> has the status \<open>published\<close>
  and the storage's current time as its \<open>publish_time\<close>; the other rows are as they were.
  A second publish of the same id, at the time \<open>later\<close>, succeeds as well and leaves
  the status \<open>published\<close> with \<open>later\<close> as the \<open>publish_time\<close>. And no request of the
  interface takes a notice back to draft: after any request every row is published,
  or has the id of a row that was a draft before, or is the row just created.
\<close>

theorem publish_sets_published:
  assumes "StringToNumber E id' = Fin x" and "0 < x"
    and "st1 = snd (publish_notice E now id' st)"
    and "st2 = snd (publish_notice E later id' st1)"
  shows "publish_notice E now id' st =
           (Ok PTrue,
            issue (SetPublished (Fin x))
              (st\<lparr>rows := map (\<lambda>r. if has_id x r
                                    then r\<lparr>status := Published, publish_time := Some now\<rparr>
                                    else r) (rows st)\<rparr>)) \<and>
         list_all (\<lambda>r. has_id x r \<longrightarrow> status r = Published \<and> publish_time r = Some now)
           (rows st1) \<and>
         fst (publish_notice E later id' st1) = Ok PTrue \<and>
         rows st2 = map (\<lambda>r. if has_id x r
                              then r\<lparr>status := Published, publish_time := Some later\<rparr>
                              else r) (rows st) \<and>
         list_all (\<lambda>r. has_id x r \<longrightarrow> status r = Published \<and> publish_time r = Some later)
           (rows st2) \<and>
         no_unpublish st (snd (api E now req st))"
proof -
  note p1 = publish_valid [OF assms(1,2), of now st]
  note p2 = publish_valid [OF assms(1,2), of later st1]
  have r1: "rows st1 = map (\<lambda>r. if has_id x r
                              then r\<lparr>status := Published, publish_time := Some now\<rparr>
                              else r) (rows st)"
    by (simp add: assms(3) p1 rows_issue)
  have r2: "rows st2 = map (\<lambda>r. if has_id x r
                              then r\<lparr>status := Published, publish_time := Some later\<rparr>
                              else r) (rows st)"
  proof -
    have "map (\<lambda>r. if has_id x r
                     then r\<lparr>status := Published, publish_time := Some later\<rparr> else r)
            (map (\<lambda>r. if has_id x r
                     then r\<lparr>status := Published, publish_time := Some now\<rparr> else r) rs) =
          map (\<lambda>r. if has_id x r
                     then r\<lparr>status := Published, publish_time := Some later\<rparr> else r) rs" for rs
      by (induction rs) (simp_all add: has_id_def)
    then show ?thesis
      by (simp add: assms(4) p2 rows_issue r1)
  qed
  have la: "list_all (\<lambda>r. has_id x r \<longrightarrow> status r = Published \<and> publish_time r = Some t)
              (map (\<lambda>r. if has_id x r
                     then r\<lparr>status := Published, publish_time := Some t\<rparr> else r) rs)" for rs t
    by (induction rs) (simp_all add: has_id_def)
  have a1: "list_all (\<lambda>r. has_id x r \<longrightarrow> status r = Published \<and> publish_time r = Some now)
           (rows st1)"
    unfolding r1 by (rule la)
  have a2: "list_all (\<lambda>r. has_id x r \<longrightarrow> status r = Published \<and> publish_time r = Some later)
           (rows st2)"
    unfolding r2 by (rule la)
  have f: "fst (publish_notice E later id' st1) = Ok PTrue"
    by (simp add: p2)
  show ?thesis
    using p1 a1 f r2 a2 no_unpublish_api [of st E now req] by (intro conjI)
qed

theorem publish_sets_published_witness:
  "StringToNumber reference ''2'' = Fin 2 \<and>
   publish_notice reference 500 ''2'' sample =
     (Ok PTrue,
      \<lparr>rows =
         [\<lparr>notice_id = 1, title = Str ''Opening hours'', content = Str ''<p>9 to 5</p>'',
           content_delta = None, status = Published, publish_time = Some 120, created_at = 100\<rparr>,
          \<lparr>notice_id = 2, title = Str ''Holiday'', content = Str ''<p>Closed</p>'',
           content_delta = Some ''{}'', status = Published, publish_time = Some 500, created_at = 200\<rparr>,
          \<lparr>notice_id = 3, title = Str ''Maintenance'', content = Str ''<p>Sunday</p>'',
           content_delta = None, status = Draft, publish_time = None, created_at = 300\<rparr>],
       next_id = 4, issued = [SetPublished (Fin 2)]\<rparr>) \<and>
   rows (snd (publish_notice reference 600 ''2'' (snd (publish_notice reference 500 ''2'' sample)))) =
         [\<lparr>notice_id = 1, title = Str ''Opening hours'', content = Str ''<p>9 to 5</p>'',
           content_delta = None, status = Published, publish_time = Some 120, created_at = 100\<rparr>,
          \<lparr>notice_id = 2, title = Str ''Holiday'', content = Str ''<p>Closed</p>'',
           content_delta = Some ''{}'', status = Published, publish_time = Some 600, created_at = 200\<rparr>,
          \<lparr>notice_id = 3, title = Str ''Maintenance'', content = Str ''<p>Sunday</p>'',
           content_delta = None, status = Draft, publish_time = None, created_at = 300\<rparr>] \<and>
   no_unpublish sample (snd (api reference 500 (PUT_notice ''1''
       \<lparr>body_title = Str ''t'', body_content = Str ''c'', body_content_delta = Undefined\<rparr>) sample))"
proof -
  let ?req = "PUT_notice ''1'' \<lparr>body_title = Str ''t'', body_content = Str ''c'',
         body_content_delta = Undefined\<rparr>"
  have k: "StringToNumber reference ''2'' = Fin 2"
    by (simp add: reference_number_examples)
  have p: "(0::real) < 2" by simp
  note T = publish_sets_published [where E = reference and id' = "''2''" and x = 2 and now = 500
      and later = 600 and st = sample and req = ?req, OF k p refl refl]
  note e1 = T [THEN conjunct1]
  note e2 = T [THEN conjunct2, THEN conjunct2, THEN conjunct2, THEN conjunct1]
  note e3 = T [THEN conjunct2, THEN conjunct2, THEN conjunct2, THEN conjunct2, THEN conjunct2]
  have v1: "issue (SetPublished (Fin 2))
              (sample\<lparr>rows := map (\<lambda>r. if has_id 2 r
                                    then r\<lparr>status := Published, publish_time := Some 500\<rparr>
                                    else r) (rows sample)\<rparr>) =
      \<lparr>rows =
         [\<lparr>notice_id = 1, title = Str ''Opening hours'', content = Str ''<p>9 to 5</p>'',
           content_delta = None, status = Published, publish_time = Some 120, created_at = 100\<rparr>,
          \<lparr>notice_id = 2, title = Str ''Holiday'', content = Str ''<p>Closed</p>'',
           content_delta = Some ''{}'', status = Published, publish_time = Some 500, created_at = 200\<rparr>,
          \<lparr>notice_id = 3, title = Str ''Maintenance'', content = Str ''<p>Sunday</p>'',
           content_delta = None, status = Draft, publish_time = None, created_at = 300\<rparr>],
       next_id = 4, issued = [SetPublished (Fin 2)]\<rparr>"
    by (simp add: sample_def sample_rows_def issue_def has_id_def)
  have v2: "map (\<lambda>r. if has_id 2 r
                     then r\<lparr>status := Published, publish_time := Some 600\<rparr>
                     else r) (rows sample) =
         [\<lparr>notice_id = 1, title = Str ''Opening hours'', content = Str ''<p>9 to 5</p>'',
           content_delta = None, status = Published, publish_time = Some 120, created_at = 100\<rparr>,
          \<lparr>notice_id = 2, title = Str ''Holiday'', content = Str ''<p>Closed</p>'',
           content_delta = Some ''{}'', status = Published, publish_time = Some 600, created_at = 200\<rparr>,
          \<lparr>notice_id = 3, title = Str ''Maintenance'', content = Str ''<p>Sunday</p>'',
           content_delta = None, status = Draft, publish_time = None, created_at = 300\<rparr>]"
    by (simp add: sample_def sample_rows_def has_id_def)
  show ?thesis
    using k e1 [unfolded v1] e2 [unfolded v2] e3 by (intro conjI)
qed

lemma checked_fields_strings:
  assumes "body_title b = Str t" and "body_content b = Str c"
    and "t' = xss E (trim t)" and "c' = xss E (trim c)"
    and "t' \<noteq> []" and "length t' \<le> 255" and "c' \<noteq> []" and "length c' \<le> 50000"
    and "delta_text E (body_content_delta b) = Return d"
  shows "checked_fields E b = Inr (Str t', Str c', d)"
  using assms
  by (simp add: checked_fields_def Let_def sanitizeInput_def validateTitle_Str validateContent_Str)

text \<open>
  C8: let the id of an update request denote a positive finite number \<open>x\<close>, and its
  title and content be strings whose sanitised forms are not empty and within the
  limits. The request succeeds. In the rows whose id is \<open>x\<close> the title, the content and
  \<open>content_delta\<close> are replaced by the sanitised title, the sanitised content and the
  converted \<open>content_delta\<close>; the id, status, \<open>publish_time\<close> and \<open>created_at\<close> of every
  row are unchanged, every row with another id is unchanged, and no row is added or
  removed. When no row has the id \<open>x\<close> the rows are as they were and the answer is
  success all the same: there is no check that the notice exists.
\<close>

theorem update_rewrites_three_fields:
  assumes "StringToNumber E id' = Fin x" and "0 < x"
    and "body_title b = Str t" and "body_content b = Str c"
    and "t' = xss E (trim t)" and "c' = xss E (trim c)"
    and "t' \<noteq> []" and "length t' \<le> 255" and "c' \<noteq> []" and "length c' \<le> 50000"
    and "delta_text E (body_content_delta b) = Return d"
    and "st' = snd (update_notice E id' b st)"
  shows "fst (update_notice E id' b st) = Ok PTrue \<and>
         rows st' = map (\<lambda>r. if has_id x r
                              then r\<lparr>title := Str t', content := Str c', content_delta := d\<rparr>
                              else r) (rows st) \<and>
         next_id st' = next_id st \<and>
         issued st' = issued st @ [Update (Str t') (Str c') d (Fin x)] \<and>
         map notice_id (rows st') = map notice_id (rows st) \<and>
         map status (rows st') = map status (rows st) \<and>
         map publish_time (rows st') = map publish_time (rows st) \<and>
         map created_at (rows st') = map created_at (rows st) \<and>
         filter (\<lambda>r. \<not> has_id x r) (rows st') = filter (\<lambda>r. \<not> has_id x r) (rows st) \<and>
         (\<not> list_ex (has_id x) (rows st) \<longrightarrow> rows st' = rows st)"
proof -
  let ?f = "\<lambda>r. if has_id x r
                 then r\<lparr>title := Str t', content := Str c', content_delta := d\<rparr> else r"
  have v: "validateId E id' = None"
    using assms(1,2) by (simp add: validateId_valid)
  have c: "checked_fields E b = Inr (Str t', Str c', d)"
    by (rule checked_fields_strings [OF assms(3-11)])
  have u: "update_notice E id' b st =
             (Ok PTrue, issue (Update (Str t') (Str c') d (Fin x)) (st\<lparr>rows := map ?f (rows st)\<rparr>))"
    by (simp add: update_notice_def v c assms(1) db_update_def sql_number_Fin sql_value_def)
  have s: "st' = issue (Update (Str t') (Str c') d (Fin x)) (st\<lparr>rows := map ?f (rows st)\<rparr>)"
    by (simp add: assms(12) u)
  have r: "rows st' = map ?f (rows st)"
    by (simp add: s rows_issue)
  have m: "map notice_id (map ?f rs) = map notice_id rs \<and> map status (map ?f rs) = map status rs \<and>
           map publish_time (map ?f rs) = map publish_time rs \<and>
           map created_at (map ?f rs) = map created_at rs \<and>
           filter (\<lambda>r. \<not> has_id x r) (map ?f rs) = filter (\<lambda>r. \<not> has_id x r) rs" for rs
    by (induction rs) (simp_all add: has_id_def)
  have z: "\<not> list_ex (has_id x) rs \<longrightarrow> map ?f rs = rs" for rs
    by (induction rs) simp_all
  have "fst (update_notice E id' b st) = Ok PTrue"
    by (simp add: u)
  moreover have "next_id st' = next_id st" "issued st' = issued st @ [Update (Str t') (Str c') d (Fin x)]"
    by (simp_all add: s issue_def)
  ultimately show ?thesis
    using r m [of "rows st"] z [of "rows st"] by simp
qed

theorem update_rewrites_three_fields_witness:
  "StringToNumber reference ''2'' = Fin 2 \<and>
   xss reference (trim ''  Closed on Monday '') = ''Closed on Monday'' \<and>
   xss reference (trim ''All day.'') = ''All day.'' \<and>
   delta_text reference Undefined = Return None \<and>
   update_notice reference ''2''
       \<lparr>body_title = Str ''  Closed on Monday '', body_content = Str ''All day.'',
        body_content_delta = Undefined\<rparr> sample =
     (Ok PTrue,
      \<lparr>rows =
         [\<lparr>notice_id = 1, title = Str ''Opening hours'', content = Str ''<p>9 to 5</p>'',
           content_delta = None, status = Published, publish_time = Some 120, created_at = 100\<rparr>,
          \<lparr>notice_id = 2, title = Str ''Closed on Monday'', content = Str ''All day.'',
           content_delta = None, status = Draft, publish_time = None, created_at = 200\<rparr>,
          \<lparr>notice_id = 3, title = Str ''Maintenance'', content = Str ''<p>Sunday</p>'',
           content_delta = None, status = Draft, publish_time = None, created_at = 300\<rparr>],
       next_id = 4,
       issued = [Update (Str ''Closed on Monday'') (Str ''All day.'') None (Fin 2)]\<rparr>) \<and>
   StringToNumber reference ''7'' = Fin 7 \<and>
   fst (update_notice reference ''7''
       \<lparr>body_title = Str ''  Closed on Monday '', body_content = Str ''All day.'',
        body_content_delta = Undefined\<rparr> sample) = Ok PTrue \<and>
   rows (snd (update_notice reference ''7''
       \<lparr>body_title = Str ''  Closed on Monday '', body_content = Str ''All day.'',
        body_content_delta = Undefined\<rparr> sample)) = rows sample"
proof -
  let ?b = "\<lparr>body_title = Str ''  Closed on Monday '', body_content = Str ''All day.'',
        body_content_delta = Undefined\<rparr>"
  let ?after = "\<lparr>rows =
         [\<lparr>notice_id = 1, title = Str ''Opening hours'', content = Str ''<p>9 to 5</p>'',
           content_delta = None, status = Published, publish_time = Some 120, created_at = 100\<rparr>,
          \<lparr>notice_id = 2, title = Str ''Closed on Monday'', content = Str ''All day.'',
           content_delta = None, status = Draft, publish_time = None, created_at = 200\<rparr>,
          \<lparr>notice_id = 3, title = Str ''Maintenance'', content = Str ''<p>Sunday</p>'',
           content_delta = None, status = Draft, publish_time = None, created_at = 300\<rparr>],
       next_id = 4,
       issued = [Update (Str ''Closed on Monday'') (Str ''All day.'') None (Fin 2)]\<rparr>"
  have k2: "StringToNumber reference ''2'' = Fin 2"
    by (simp add: reference_number_examples)
  have k7: "StringToNumber reference ''7'' = Fin 7"
    by (simp add: reference_defs)
  have t: "''Closed on Monday'' = xss reference (trim ''  Closed on Monday '')"
    by (simp add: reference_xss escapeHtml_def trim_def is_space_def)
  have c: "''All day.'' = xss reference (trim ''All day.'')"
    by (simp add: reference_xss escapeHtml_def trim_def is_space_def)
  have d: "delta_text reference (body_content_delta ?b) = Return None"
    by (simp add: delta_text_absent)
  have bt: "body_title ?b = Str ''  Closed on Monday ''" and bc: "body_content ?b = Str ''All day.''"
    by simp_all
  have l: "''Closed on Monday'' \<noteq> []" "length ''Closed on Monday'' \<le> 255"
    "''All day.'' \<noteq> []" "length ''All day.'' \<le> 50000"
    by simp_all
  have p2: "(0::real) < 2" and p7: "(0::real) < 7" by simp_all
  note u2 = update_rewrites_three_fields [where st = sample, OF k2 p2 bt bc t c l d refl]
  note u7 = update_rewrites_three_fields [where st = sample, OF k7 p7 bt bc t c l d refl]
  let ?st2 = "snd (update_notice reference ''2'' ?b sample)"
  have r2: "rows ?st2 = rows ?after"
    unfolding u2 [THEN conjunct2, THEN conjunct1]
    by (simp add: sample_def sample_rows_def has_id_def)
  have n2: "next_id ?st2 = 4"
    unfolding u2 [THEN conjunct2, THEN conjunct2, THEN conjunct1] by (simp add: sample_def)
  have i2: "issued ?st2 = [Update (Str ''Closed on Monday'') (Str ''All day.'') None (Fin 2)]"
    unfolding u2 [THEN conjunct2, THEN conjunct2, THEN conjunct2, THEN conjunct1]
    by (simp add: sample_def)
  have a2: "update_notice reference ''2'' ?b sample = (Ok PTrue, ?after)"
  proof (rule prod_eqI)
    show "fst (update_notice reference ''2'' ?b sample) = fst (Ok PTrue, ?after)"
      by (simp add: u2 [THEN conjunct1])
    show "snd (update_notice reference ''2'' ?b sample) = snd (Ok PTrue, ?after)"
      by (rule storage.equality) (simp_all add: r2 n2 i2)
  qed
  have f7: "fst (update_notice reference ''7'' ?b sample) = Ok PTrue"
    by (rule u7 [THEN conjunct1])
  have "\<not> list_ex (has_id 7) (rows sample)"
    by (simp add: sample_def sample_rows_def has_id_def)
  then have r7: "rows (snd (update_notice reference ''7'' ?b sample)) = rows sample"
    by (rule u7 [THEN conjunct2, THEN conjunct2, THEN conjunct2, THEN conjunct2, THEN conjunct2,
          THEN conjunct2, THEN conjunct2, THEN conjunct2, THEN conjunct2, THEN mp])
  have x: "delta_text reference Undefined = Return None"
    by (rule delta_text_absent)
  show ?thesis
    using k2 t [symmetric] c [symmetric] x a2 k7 f7 r7 by (intro conjI)
qed

end
